theory Spec2Isabelle
  imports Complex_Main
begin

section \<open>JavaScript values used by the two wallet dashboards\<close>

text \<open>
  The two dashboards (the direct integration, \<^verbatim>\<open>AppDirect\<close>, and the wallet-standard
  integration, \<^verbatim>\<open>AppWalletStandard.tsx\<close>) compute with JavaScript numbers and strings.

  A JavaScript number is an IEEE-754 binary64 value: \<open>NaN\<close>, one of the two infinities,
  or a finite value, which is carried here as the rational it denotes. Every arithmetic
  result is rounded to binary64 by \<open>binary64\<close> below. The two zeros are one value (the
  program never divides by a zero and never prints the sign of a zero).

  A JavaScript string is a sequence of UTF-16 code units, here natural numbers; \<open>js\<close>
  turns an ASCII literal into its code units.
\<close>

datatype number = NaN | PosInfinity | NegInfinity | Finite rat

subsection \<open>Rounding to binary64\<close>

definition pow2 :: "int \<Rightarrow> rat" where
  "pow2 e = (if 0 \<le> e then 2 ^ nat e else 1 / 2 ^ nat (- e))"

text \<open>The position of the highest bit of a natural number (0 for 0 and 1).\<close>

fun ilog2 :: "nat \<Rightarrow> nat" where
  "ilog2 n = (if n < 2 then 0 else 1 + ilog2 (n div 2))"

declare ilog2.simps [simp del]

text \<open>For \<open>0 < a\<close>, the integer \<open>k\<close> with \<open>2^k \<le> a < 2^(k+1)\<close>.\<close>

definition floor_log2 :: "rat \<Rightarrow> int" where
  "floor_log2 a =
     (if 1 \<le> a then int (ilog2 (nat \<lfloor>a\<rfloor>))
      else
        let j = ilog2 (nat \<lfloor>1 / a\<rfloor>)
        in if a * 2 ^ j = 1 then - int j else - int j - 1)"

definition round_half_even :: "rat \<Rightarrow> int" where
  "round_half_even t =
     (let f = \<lfloor>t\<rfloor>; r = t - of_int f
      in if r < 1 / 2 then f else if 1 / 2 < r then f + 1 else if even f then f else f + 1)"

text \<open>
  Round to nearest, ties to even: a significand of 53 bits, the least exponent of a
  unit in the last place \<open>-1074\<close> (subnormal numbers, underflow to zero), overflow to an
  infinity from \<open>2^1024\<close> on.
\<close>

definition binary64 :: "rat \<Rightarrow> number" where
  "binary64 q =
     (if q = 0 then Finite 0
      else
        let a = \<bar>q\<bar>;
            e = max (floor_log2 a - 52) (- 1074);
            v = of_int (round_half_even (a / pow2 e)) * pow2 e
        in if 2 ^ 1024 \<le> v then (if 0 < q then PosInfinity else NegInfinity)
           else Finite (if 0 < q then v else - v))"

subsection \<open>Operators\<close>

fun isNaN :: "number \<Rightarrow> bool" where
  "isNaN NaN = True"
| "isNaN _ = False"


text \<open>The relational operators \<^verbatim>\<open><\<close>, \<^verbatim>\<open>></\<close> and \<^verbatim>\<open><=\<close>: every comparison with \<open>NaN\<close> is false.\<close>

fun js_lt :: "number \<Rightarrow> number \<Rightarrow> bool" where
  "js_lt NaN _ = False"
| "js_lt _ NaN = False"
| "js_lt (Finite x) (Finite y) = (x < y)"
| "js_lt (Finite _) PosInfinity = True"
| "js_lt (Finite _) NegInfinity = False"
| "js_lt NegInfinity NegInfinity = False"
| "js_lt NegInfinity _ = True"
| "js_lt PosInfinity _ = False"

definition js_gt :: "number \<Rightarrow> number \<Rightarrow> bool" where
  "js_gt a b = js_lt b a"

fun js_le :: "number \<Rightarrow> number \<Rightarrow> bool" where
  "js_le NaN _ = False"
| "js_le _ NaN = False"
| "js_le a b = (a = b \<or> js_lt a b)"

text \<open>The arithmetic operators \<^verbatim>\<open>-\<close>, \<^verbatim>\<open>*\<close> and \<^verbatim>\<open>/\<close>: the exact result, rounded.\<close>

fun js_minus :: "number \<Rightarrow> number \<Rightarrow> number" where
  "js_minus NaN _ = NaN"
| "js_minus _ NaN = NaN"
| "js_minus (Finite x) (Finite y) = binary64 (x - y)"
| "js_minus (Finite _) PosInfinity = NegInfinity"
| "js_minus (Finite _) NegInfinity = PosInfinity"
| "js_minus PosInfinity PosInfinity = NaN"
| "js_minus PosInfinity _ = PosInfinity"
| "js_minus NegInfinity NegInfinity = NaN"
| "js_minus NegInfinity _ = NegInfinity"

definition sign_times :: "bool \<Rightarrow> rat \<Rightarrow> number" where
  \<comment> \<open>an infinity (positive when the flag is set) combined with a finite factor\<close>
  "sign_times pos y =
     (if y = 0 then NaN else if (0 < y) = pos then PosInfinity else NegInfinity)"

fun js_times :: "number \<Rightarrow> number \<Rightarrow> number" where
  "js_times NaN _ = NaN"
| "js_times _ NaN = NaN"
| "js_times (Finite x) (Finite y) = binary64 (x * y)"
| "js_times (Finite x) PosInfinity = sign_times True x"
| "js_times (Finite x) NegInfinity = sign_times False x"
| "js_times PosInfinity (Finite y) = sign_times True y"
| "js_times NegInfinity (Finite y) = sign_times False y"
| "js_times PosInfinity PosInfinity = PosInfinity"
| "js_times NegInfinity NegInfinity = PosInfinity"
| "js_times PosInfinity NegInfinity = NegInfinity"
| "js_times NegInfinity PosInfinity = NegInfinity"

fun js_divide :: "number \<Rightarrow> number \<Rightarrow> number" where
  "js_divide NaN _ = NaN"
| "js_divide _ NaN = NaN"
| "js_divide (Finite x) (Finite y) =
     (if y \<noteq> 0 then binary64 (x / y)
      else if x = 0 then NaN else if 0 < x then PosInfinity else NegInfinity)"
| "js_divide (Finite _) _ = Finite 0"
| "js_divide PosInfinity (Finite y) = (if 0 \<le> y then PosInfinity else NegInfinity)"
| "js_divide NegInfinity (Finite y) = (if 0 \<le> y then NegInfinity else PosInfinity)"
| "js_divide _ _ = NaN"

text \<open>\<^verbatim>\<open>Math.max(a, b)\<close>: \<open>NaN\<close> if either argument is \<open>NaN\<close>, else the larger one.\<close>

definition Math_max :: "number \<Rightarrow> number \<Rightarrow> number" where
  "Math_max a b = (if isNaN a \<or> isNaN b then NaN else if js_lt a b then b else a)"

text \<open>
  \<^verbatim>\<open>balance || 0\<close> for \<^verbatim>\<open>balance: number | null\<close>: \<open>null\<close>, \<open>NaN\<close> and \<open>0\<close> are falsy.
\<close>

fun or_zero :: "number option \<Rightarrow> number" where
  "or_zero None = Finite 0"
| "or_zero (Some NaN) = Finite 0"
| "or_zero (Some b) = b"

text \<open>\<^verbatim>\<open>Number.isInteger\<close>.\<close>

fun isInteger :: "number \<Rightarrow> bool" where
  "isInteger (Finite q) = (of_int \<lfloor>q\<rfloor> = q)"
| "isInteger _ = False"

text \<open>
  The constant of \<^verbatim>\<open>@solana/web3.js\<close>, \<open>10^9\<close>, and the literal \<^verbatim>\<open>0.001\<close> of the handlers,
  which denotes the binary64 number nearest to a thousandth.
\<close>

definition LAMPORTS_PER_SOL :: number where
  "LAMPORTS_PER_SOL = Finite 1000000000"

definition RENT_RESERVE :: number where
  "RENT_RESERVE = binary64 (1 / 1000)"

subsection \<open>Strings\<close>

type_synonym jsstring = "nat list"

definition js :: "string \<Rightarrow> jsstring" where
  "js s = map of_char s"

fun startsWith :: "jsstring \<Rightarrow> jsstring \<Rightarrow> bool" where
  "startsWith _ [] = True"
| "startsWith [] (_ # _) = False"
| "startsWith (x # xs) (c # cs) = (x = c \<and> startsWith xs cs)"

text \<open>\<^verbatim>\<open>s.includes(sub)\<close>: \<open>sub\<close> occurs somewhere in \<open>s\<close> as a contiguous block.\<close>

fun str_includes :: "jsstring \<Rightarrow> jsstring \<Rightarrow> bool" where
  "str_includes [] sub = (sub = [])"
| "str_includes (x # xs) sub = (startsWith (x # xs) sub \<or> str_includes xs sub)"

text \<open>
  White space and line terminators, as \<^verbatim>\<open>trim\<close> and \<^verbatim>\<open>parseFloat\<close> strip them: TAB, LF,
  VT, FF, CR, SPACE, U+00A0, U+1680, U+2000 to U+200A, U+2028, U+2029, U+202F, U+205F,
  U+3000 and U+FEFF.
\<close>

definition isWhiteSpace :: "nat \<Rightarrow> bool" where
  "isWhiteSpace c =
     (c \<in> {9, 10, 11, 12, 13, 32, 160, 5760, 8232, 8233, 8239, 8287, 12288, 65279}
      \<or> (8192 \<le> c \<and> c \<le> 8202))"

definition trimStart :: "jsstring \<Rightarrow> jsstring" where
  "trimStart s = dropWhile isWhiteSpace s"

definition trim :: "jsstring \<Rightarrow> jsstring" where
  "trim s = rev (dropWhile isWhiteSpace (rev (dropWhile isWhiteSpace s)))"

definition isDigit :: "nat \<Rightarrow> bool" where
  "isDigit c = (48 \<le> c \<and> c \<le> 57)"

definition digitValue :: "nat \<Rightarrow> nat" where
  "digitValue c = c - 48"

definition digitsValue :: "jsstring \<Rightarrow> nat" where
  "digitsValue ds = foldl (\<lambda>acc c. 10 * acc + digitValue c) 0 ds"

subsection \<open>\<^verbatim>\<open>parseFloat\<close>\<close>

text \<open>
  \<^verbatim>\<open>parseFloat(s)\<close> skips leading white space and reads the longest prefix of the rest
  that is a decimal literal: an optional sign, then \<^verbatim>\<open>Infinity\<close> or digits with an
  optional fraction and an optional exponent. Whatever follows is ignored; with no such
  prefix the result is \<open>NaN\<close>. The value of the literal is rounded to binary64.

  The scanners return what they read together with the rest of the string.
\<close>

datatype literal = LitInfinity | LitDecimal rat

definition ExponentPart :: "jsstring \<Rightarrow> int \<times> jsstring" where
  \<comment> \<open>the exponent at the head of the string, 0 when there is none\<close>
  "ExponentPart s =
     (case s of
        [] \<Rightarrow> (0, s)
      | e # t \<Rightarrow>
          if e = of_char CHR ''e'' \<or> e = of_char CHR ''E'' then
            (case t of
               [] \<Rightarrow> (0, s)
             | sg # u \<Rightarrow>
                 if sg = of_char CHR ''-'' then
                   (if takeWhile isDigit u = [] then (0, s)
                    else (- int (digitsValue (takeWhile isDigit u)), dropWhile isDigit u))
                 else if sg = of_char CHR ''+'' then
                   (if takeWhile isDigit u = [] then (0, s)
                    else (int (digitsValue (takeWhile isDigit u)), dropWhile isDigit u))
                 else if takeWhile isDigit t = [] then (0, s)
                 else (int (digitsValue (takeWhile isDigit t)), dropWhile isDigit t))
          else (0, s))"

definition scale10 :: "rat \<Rightarrow> int \<Rightarrow> rat" where
  "scale10 m e = (if 0 \<le> e then m * 10 ^ nat e else m / 10 ^ nat (- e))"

definition StrUnsignedDecimalLiteral :: "jsstring \<Rightarrow> (literal \<times> jsstring) option" where
  "StrUnsignedDecimalLiteral s =
     (if startsWith s (js ''Infinity'') then Some (LitInfinity, drop 8 s)
      else
        let ip = takeWhile isDigit s;
            r1 = dropWhile isDigit s;
            fp = (case r1 of [] \<Rightarrow> []
                  | d # t \<Rightarrow> if d = of_char CHR ''.'' then takeWhile isDigit t else []);
            r2 = (case r1 of [] \<Rightarrow> []
                  | d # t \<Rightarrow> if d = of_char CHR ''.'' then dropWhile isDigit t else r1)
        in if ip = [] \<and> fp = [] then None
           else Some (LitDecimal (scale10 (of_nat (digitsValue (ip @ fp)) / 10 ^ length fp)
                                          (fst (ExponentPart r2))),
                      snd (ExponentPart r2)))"

text \<open>The signed literal at the start of a string, after leading white space.\<close>

definition StrDecimalLiteral :: "jsstring \<Rightarrow> (bool \<times> literal \<times> jsstring) option" where
  \<comment> \<open>the flag says that the literal has a minus sign\<close>
  "StrDecimalLiteral s =
     (case trimStart s of
        [] \<Rightarrow> None
      | c # t \<Rightarrow>
          if c = of_char CHR ''-'' then map_option (Pair True) (StrUnsignedDecimalLiteral t)
          else if c = of_char CHR ''+'' then map_option (Pair False) (StrUnsignedDecimalLiteral t)
          else map_option (Pair False) (StrUnsignedDecimalLiteral (c # t)))"

definition parseFloat :: "jsstring \<Rightarrow> number" where
  "parseFloat s =
     (case StrDecimalLiteral s of
        None \<Rightarrow> NaN
      | Some (negative, LitInfinity, _) \<Rightarrow> if negative then NegInfinity else PosInfinity
      | Some (negative, LitDecimal q, _) \<Rightarrow> binary64 (if negative then - q else q))"

subsection \<open>\<^verbatim>\<open>Number.prototype.toFixed\<close>\<close>

definition digitChar :: "nat \<Rightarrow> nat" where
  "digitChar d = 48 + d"

fun decimalDigits :: "nat \<Rightarrow> jsstring" where
  "decimalDigits n =
     (if n < 10 then [digitChar n]
      else decimalDigits (n div 10) @ [digitChar (n mod 10)])"

declare decimalDigits.simps [simp del]

definition toFixed_nonneg :: "(rat \<Rightarrow> jsstring) \<Rightarrow> rat \<Rightarrow> nat \<Rightarrow> jsstring" where
  \<comment> \<open>steps 10 to 12 of \<^verbatim>\<open>toFixed\<close>, for \<open>x \<ge> 0\<close> and \<open>f > 0\<close>\<close>
  "toFixed_nonneg Number_toString x f =
     (if 10 ^ 21 \<le> x then Number_toString x
      else
        let n = nat \<lfloor>x * 10 ^ f + 1 / 2\<rfloor>;
            m = decimalDigits n;
            m' = replicate (f + 1 - length m) (of_char CHR ''0'') @ m
        in take (length m' - f) m' @ js ''.'' @ drop (length m' - f) m')"

text \<open>
  \<^verbatim>\<open>x.toFixed(f)\<close> for \<open>0 < f\<close>: the decimal with \<open>f\<close> fraction digits nearest to the exact
  value of \<open>x\<close>, the larger one of two. A value of \<open>10^21\<close> or more is printed by the
  number-to-string conversion, which is not modelled: it is the parameter
  \<open>Number_toString\<close>.
\<close>

fun toFixed :: "(rat \<Rightarrow> jsstring) \<Rightarrow> number \<Rightarrow> nat \<Rightarrow> jsstring" where
  "toFixed _ NaN _ = js ''NaN''"
| "toFixed _ PosInfinity _ = js ''Infinity''"
| "toFixed _ NegInfinity _ = js ''-Infinity''"
| "toFixed Number_toString (Finite x) f =
     (if x < 0 then js ''-'' @ toFixed_nonneg Number_toString (- x) f
      else toFixed_nonneg Number_toString x f)"

section \<open>The dashboard state and what a handler does to the outside world\<close>

text \<open>
  The \<^verbatim>\<open>useState\<close> cells of \<^verbatim>\<open>WalletDashboard\<close> (the same eight in both variants; the
  ninth, \<^verbatim>\<open>connection\<close>, is never written).
\<close>

record state =
  balance :: "number option"
  copied :: bool
  showSendModal :: bool
  recipient :: jsstring
  amount :: jsstring
  txHash :: "jsstring option"
  txError :: jsstring
  sending :: bool


type_synonym PublicKey = jsstring

record WalletInfo =
  smartWallet :: jsstring

text \<open>What \<^verbatim>\<open>useWallet()\<close> of \<^verbatim>\<open>@lazorkit/wallet\<close> hands to the direct dashboard.\<close>

record wallet_direct =
  smartWalletPubkey :: "PublicKey option"
  wallet :: "WalletInfo option"
  isConnected :: bool
  isConnecting :: bool

text \<open>What \<^verbatim>\<open>useWallet()\<close> of the wallet adapter hands to the wallet-standard dashboard.\<close>

record wallet_standard =
  publicKey :: "PublicKey option"
  connected :: bool

text \<open>A thrown value: an \<^verbatim>\<open>Error\<close> with its message, or anything else.\<close>

datatype thrown = Error jsstring | NonError

record TransferParams =
  fromPubkey :: PublicKey
  toPubkey :: PublicKey
  lamports :: number

datatype TransactionInstruction = Instruction TransferParams

datatype Transaction = Transaction "TransactionInstruction list"

record TransactionOptions =
  computeUnitLimit :: nat
  addressLookupTableAccounts :: "jsstring list"
  clusterSimulation :: jsstring

record SignAndSendPayload =
  instructions :: "TransactionInstruction list"
  transactionOptions :: TransactionOptions

text \<open>
  The library and network operations the handlers call are parameters: each either
  returns a value or throws. \<open>Number_toString\<close> is the part of \<^verbatim>\<open>toFixed\<close> that is
  not modelled.
\<close>

record env =
  PublicKey_new :: "jsstring \<Rightarrow> thrown + PublicKey"
  SystemProgram_transfer :: "TransferParams \<Rightarrow> thrown + TransactionInstruction"
  signAndSendTransaction :: "SignAndSendPayload \<Rightarrow> thrown + jsstring"
  sendTransaction :: "Transaction \<Rightarrow> thrown + jsstring"
  getBalance :: "PublicKey \<Rightarrow> thrown + number"
  Number_toString :: "rat \<Rightarrow> jsstring"

text \<open>
  A handler is modelled by the list of things it does, in program order, together with
  how it ends: \<open>Inr ()\<close> when it returns, \<open>Inl e\<close> when \<open>e\<close> escapes it.
\<close>

datatype effect =
    PreventDefault
  | SetBalance number
  | SetShowSendModal bool
  | SetRecipient jsstring
  | SetAmount jsstring
  | SetTxHash "jsstring option"
  | SetTxError jsstring
  | SetSending bool
  | Console_log jsstring
  | Console_error jsstring
  | Call_getBalance PublicKey
  | Call_SystemProgram_transfer TransferParams
  | Call_signAndSendTransaction SignAndSendPayload
  | Call_sendTransaction Transaction
  | SetInterval nat
  | ClearInterval

fun apply_effect :: "state \<Rightarrow> effect \<Rightarrow> state" where
  "apply_effect s (SetBalance b) = s\<lparr>balance := Some b\<rparr>"
| "apply_effect s (SetShowSendModal b) = s\<lparr>showSendModal := b\<rparr>"
| "apply_effect s (SetRecipient r) = s\<lparr>recipient := r\<rparr>"
| "apply_effect s (SetAmount a) = s\<lparr>amount := a\<rparr>"
| "apply_effect s (SetTxHash h) = s\<lparr>txHash := h\<rparr>"
| "apply_effect s (SetTxError e) = s\<lparr>txError := e\<rparr>"
| "apply_effect s (SetSending b) = s\<lparr>sending := b\<rparr>"
| "apply_effect s _ = s"

definition run :: "effect list \<Rightarrow> state \<Rightarrow> state" where
  "run es s = foldl apply_effect s es"

section \<open>Balance tracking\<close>

text \<open>
  \<^verbatim>\<open>refreshBalance\<close> (direct variant lines 71 to 79, wallet-standard variant lines 41 to
  49; the two differ only in the name of the key, \<^verbatim>\<open>smartWalletPubkey\<close> or
  \<^verbatim>\<open>publicKey\<close>).
\<close>

definition refreshBalance :: "env \<Rightarrow> PublicKey option \<Rightarrow> effect list \<times> (thrown + unit)" where
  "refreshBalance env pubkey =
     (case pubkey of
        None \<Rightarrow> ([], Inr ())
      | Some k \<Rightarrow>
          (case getBalance env k of
             Inr balanceLamports \<Rightarrow>
               ([Call_getBalance k, SetBalance (js_divide balanceLamports LAMPORTS_PER_SOL)],
                Inr ())
           | Inl error \<Rightarrow>
               ([Call_getBalance k, Console_error (js ''Balance refresh error:'')], Inr ())))"




section \<open>Sending a transfer\<close>

text \<open>
  The checks on recipient and amount inside \<^verbatim>\<open>handleSendTransaction\<close> (direct lines 104
  to 121, wallet-standard lines 70 to 87; the same text in both). The template
  \<^verbatim>\<open>${RENT_RESERVE}\<close> prints \<^verbatim>\<open>0.001\<close>.
\<close>

definition validateTransfer :: "env \<Rightarrow> state \<Rightarrow> thrown + (PublicKey \<times> number)" where
  "validateTransfer env s =
     (case PublicKey_new env (trim (recipient s)) of
        Inl err \<Rightarrow> Inl err
      | Inr recipientPubkey \<Rightarrow>
          let amountNum = parseFloat (amount s) in
          if isNaN amountNum \<or> js_le amountNum (Finite 0) then Inl (Error (js ''Invalid amount''))
          else
            let maxSendable = Math_max (Finite 0) (js_minus (or_zero (balance s)) RENT_RESERVE) in
            if (case balance s of None \<Rightarrow> False | Some b \<Rightarrow> js_gt amountNum b)
            then Inl (Error (js ''Insufficient balance''))
            else if (case balance s of None \<Rightarrow> False | Some _ \<Rightarrow> js_gt amountNum maxSendable)
            then Inl (Error ((js ''Amount too high. Keep at least 0.001 SOL for rent. Max sendable: '')
                             @ toFixed (Number_toString env) maxSendable 4 @ (js '' SOL'')))
            else Inr (recipientPubkey, amountNum))"

text \<open>
  The argument of \<^verbatim>\<open>SystemProgram.transfer\<close> (direct lines 123 to 127, wallet-standard
  lines 90 to 94).
\<close>

definition transfer_params :: "PublicKey \<Rightarrow> PublicKey \<Rightarrow> number \<Rightarrow> TransferParams" where
  "transfer_params from_key recipientPubkey amountNum =
     \<lparr>fromPubkey = from_key, toPubkey = recipientPubkey,
      lamports = js_times amountNum LAMPORTS_PER_SOL\<rparr>"

text \<open>
  The argument of \<^verbatim>\<open>signAndSendTransaction\<close> (direct lines 140 to 147) and of
  \<^verbatim>\<open>sendTransaction\<close> (wallet-standard lines 89 to 95 and 105).
\<close>

definition sign_payload :: "TransactionInstruction \<Rightarrow> SignAndSendPayload" where
  "sign_payload instruction =
     \<lparr>instructions = [instruction],
      transactionOptions =
        \<lparr>computeUnitLimit = 200000, addressLookupTableAccounts = [],
         clusterSimulation = (js ''devnet'')\<rparr>\<rparr>"

text \<open>The \<^verbatim>\<open>try\<close> block of the direct variant (lines 96 to 154).\<close>

definition try_direct :: "env \<Rightarrow> wallet_direct \<Rightarrow> state \<Rightarrow> effect list \<times> (thrown + unit)" where
  "try_direct env w s =
     (case smartWalletPubkey w of
        None \<Rightarrow> ([], Inl (Error (js ''Wallet not connected'')))
      | Some from_key \<Rightarrow>
          if \<not> isConnected w \<or> wallet w = None
          then ([], Inl (Error (js ''Please reconnect your wallet'')))
          else
            (case validateTransfer env s of
               Inl err \<Rightarrow> ([], Inl err)
             | Inr (recipientPubkey, amountNum) \<Rightarrow>
                 let params = transfer_params from_key recipientPubkey amountNum in
                 (case SystemProgram_transfer env params of
                    Inl err \<Rightarrow> ([Call_SystemProgram_transfer params], Inl err)
                  | Inr instruction \<Rightarrow>
                      let payload = sign_payload instruction;
                          started =
                            [Call_SystemProgram_transfer params,
                             Console_log (js ''Attempting to sign transaction...''),
                             Call_signAndSendTransaction payload]
                      in
                      (case signAndSendTransaction env payload of
                         Inl err \<Rightarrow> (started, Inl err)
                       | Inr signature \<Rightarrow>
                           (started
                            @ [Console_log (js ''Transaction successful:''),
                               SetTxHash (Some signature), SetRecipient [], SetAmount []]
                            @ fst (refreshBalance env (smartWalletPubkey w)),
                            snd (refreshBalance env (smartWalletPubkey w)))))))"

text \<open>The \<^verbatim>\<open>try\<close> block of the wallet-standard variant (lines 66 to 112).\<close>

definition try_standard :: "env \<Rightarrow> wallet_standard \<Rightarrow> state \<Rightarrow> effect list \<times> (thrown + unit)" where
  "try_standard env w s =
     (case publicKey w of
        None \<Rightarrow> ([], Inl (Error (js ''Wallet not connected'')))
      | Some from_key \<Rightarrow>
          if \<not> connected w then ([], Inl (Error (js ''Wallet not connected'')))
          else
            (case validateTransfer env s of
               Inl err \<Rightarrow> ([], Inl err)
             | Inr (recipientPubkey, amountNum) \<Rightarrow>
                 let params = transfer_params from_key recipientPubkey amountNum in
                 (case SystemProgram_transfer env params of
                    Inl err \<Rightarrow> ([Call_SystemProgram_transfer params], Inl err)
                  | Inr instruction \<Rightarrow>
                      let transaction = Transaction [instruction];
                          started =
                            [Call_SystemProgram_transfer params,
                             Console_log (js ''Attempting to send transaction...''),
                             Call_sendTransaction transaction]
                      in
                      (case sendTransaction env transaction of
                         Inl err \<Rightarrow> (started, Inl err)
                       | Inr signature \<Rightarrow>
                           (started
                            @ [Console_log (js ''Transaction successful:''),
                               SetTxHash (Some signature), SetRecipient [], SetAmount []]
                            @ fst (refreshBalance env (publicKey w)),
                            snd (refreshBalance env (publicKey w)))))))"

text \<open>\<^verbatim>\<open>balance?.toFixed(4) || '0'\<close>: the empty string is falsy.\<close>

definition balance_text :: "env \<Rightarrow> number option \<Rightarrow> jsstring" where
  "balance_text env b =
     (case b of
        None \<Rightarrow> (js ''0'')
      | Some x \<Rightarrow> if toFixed (Number_toString env) x 4 = [] then (js ''0'')
                  else toFixed (Number_toString env) x 4)"

definition insufficient_funds_message :: "env \<Rightarrow> number option \<Rightarrow> jsstring" where
  "insufficient_funds_message env b =
     (js ''Insufficient funds. Your balance: '') @ balance_text env b
     @ (js '' SOL. You need to keep at least 0.001 SOL for rent. Try a smaller amount or fund your wallet using the faucet.'')"

text \<open>The message computed by the \<^verbatim>\<open>catch\<close> block of the direct variant (lines 157 to 174).\<close>

definition errorMessage_direct :: "env \<Rightarrow> number option \<Rightarrow> thrown \<Rightarrow> jsstring" where
  "errorMessage_direct env b err =
     (case err of
        NonError \<Rightarrow> (js ''Transaction failed'')
      | Error message \<Rightarrow>
          if str_includes message (js ''Signing failed'')
          then (js ''Signing failed. Please ensure you authenticate with your passkey.'')
          else if str_includes message (js ''User rejected'')
          then (js ''Transaction was cancelled.'')
          else if str_includes message (js ''Transaction too large'') \<or> str_includes message (js ''too large'')
          then (js ''Transaction too large. The transaction has been optimized with V0 format. If this persists, please try a smaller amount or contact support.'')
          else if str_includes message (js ''custom program error: 0x1'')
                  \<or> str_includes message (js ''custom program error: 0x2'')
          then insufficient_funds_message env b
          else if str_includes message
                    (js ''Attempt to debit an account but found no record of a prior credit'')
          then (js ''Account not funded. Please add SOL to your wallet using the faucet.'')
          else if str_includes message (js ''Transaction simulation failed'')
          then (js ''Transaction simulation failed. This may be due to insufficient funds or network issues. Please check your balance and try again.'')
          else message)"

text \<open>The same for the wallet-standard variant (lines 115 to 132).\<close>

definition errorMessage_standard :: "env \<Rightarrow> number option \<Rightarrow> thrown \<Rightarrow> jsstring" where
  "errorMessage_standard env b err =
     (case err of
        NonError \<Rightarrow> (js ''Transaction failed'')
      | Error message \<Rightarrow>
          if str_includes message (js ''User rejected'')
          then (js ''Transaction was cancelled.'')
          else if str_includes message (js ''Signing failed'')
          then (js ''Signing failed. Please ensure you authenticate with your passkey.'')
          else if str_includes message (js ''Transaction too large'') \<or> str_includes message (js ''too large'')
          then (js ''Transaction too large. If this persists, please try a smaller amount or contact support.'')
          else if str_includes message (js ''custom program error: 0x1'')
                  \<or> str_includes message (js ''custom program error: 0x2'')
          then insufficient_funds_message env b
          else if str_includes message
                    (js ''Attempt to debit an account but found no record of a prior credit'')
          then (js ''Account not funded. Please add SOL to your wallet using the faucet.'')
          else if str_includes message (js ''Transaction simulation failed'')
          then (js ''Transaction simulation failed. This may be due to insufficient funds or network issues. Please check your balance and try again.'')
          else message)"

text \<open>
  \<^verbatim>\<open>handleSendTransaction\<close>: the three updates before the \<^verbatim>\<open>try\<close>, the \<^verbatim>\<open>try\<close> block, the
  \<^verbatim>\<open>catch\<close> block when the \<^verbatim>\<open>try\<close> block threw, and the \<^verbatim>\<open>finally\<close> block. The
  handler reads \<^verbatim>\<open>recipient\<close>, \<^verbatim>\<open>amount\<close> and \<^verbatim>\<open>balance\<close> from the state of the render
  that created it, here \<open>s\<close>.
\<close>

definition handleSendTransaction_direct ::
    "env \<Rightarrow> wallet_direct \<Rightarrow> state \<Rightarrow> effect list \<times> (thrown + unit)" where
  "handleSendTransaction_direct env w s =
     (let before = [PreventDefault, SetTxError [], SetTxHash None, SetSending True];
          tried = try_direct env w s;
          caught =
            (case snd tried of
               Inr _ \<Rightarrow> []
             | Inl err \<Rightarrow>
                 [Console_error (js ''Transaction failed:''),
                  SetTxError (errorMessage_direct env (balance s) err)])
      in (before @ fst tried @ caught @ [SetSending False], Inr ()))"

definition handleSendTransaction_standard ::
    "env \<Rightarrow> wallet_standard \<Rightarrow> state \<Rightarrow> effect list \<times> (thrown + unit)" where
  "handleSendTransaction_standard env w s =
     (let before = [PreventDefault, SetTxError [], SetTxHash None, SetSending True];
          tried = try_standard env w s;
          caught =
            (case snd tried of
               Inr _ \<Rightarrow> []
             | Inl err \<Rightarrow>
                 [Console_error (js ''Transaction failed:''),
                  SetTxError (errorMessage_standard env (balance s) err)])
      in (before @ fst tried @ caught @ [SetSending False], Inr ()))"

text \<open>The \<^verbatim>\<open>Cancel\<close> button of the send form and the \<^verbatim>\<open>Close\<close> button of the success panel.\<close>

definition cancel_clicked :: "effect list" where
  "cancel_clicked = [SetShowSendModal False, SetTxError [], SetRecipient [], SetAmount []]"

definition close_clicked :: "effect list" where
  "close_clicked = [SetShowSendModal False, SetTxHash None]"

section \<open>Mounting and unmounting the dashboard\<close>







section \<open>Numeric strings\<close>

text \<open>
  Two ways to call an amount string numeric. It \<^emph>\<open>begins with a number\<close> when, after
  leading white space and an optional sign, it starts with \<^verbatim>\<open>Infinity\<close>, with a digit, or
  with a point that a digit follows. It \<^emph>\<open>is a number\<close> when, apart from white space
  around it, the whole string is one signed decimal literal.
\<close>

definition begins_with_number :: "jsstring \<Rightarrow> bool" where
  "begins_with_number s =
     (let t = trimStart s;
          u = (case t of [] \<Rightarrow> []
               | c # r \<Rightarrow> if c = of_char CHR ''-'' \<or> c = of_char CHR ''+'' then r else t)
      in startsWith u (js ''Infinity'')
         \<or> (case u of [] \<Rightarrow> False
             | c # r \<Rightarrow> isDigit c
                 \<or> (c = of_char CHR ''.'' \<and> (case r of [] \<Rightarrow> False | d # _ \<Rightarrow> isDigit d))))"

definition numeric_string :: "jsstring \<Rightarrow> bool" where
  "numeric_string s =
     (case StrDecimalLiteral s of
        None \<Rightarrow> False
      | Some (_, _, rest) \<Rightarrow> trimStart rest = [])"

section \<open>Example values\<close>

text \<open>
  A small environment for running the definitions. Its key parser and its transfer
  builder behave as those of \<^verbatim>\<open>@solana/web3.js\<close> 1.x do: the parser decodes base 58 and
  wants 32 bytes, the builder converts the lamports with \<^verbatim>\<open>BigInt\<close>, which throws a
  \<^verbatim>\<open>RangeError\<close> on a number that is not an integer. The provider answers with a
  signature, and the balance query answers half a SOL.
\<close>

definition base58_alphabet :: jsstring where
  "base58_alphabet = js ''123456789ABCDEFGHJKLMNPQRSTUVWXYZabcdefghijkmnopqrstuvwxyz''"

fun index_from :: "nat \<Rightarrow> nat \<Rightarrow> nat list \<Rightarrow> nat option" where
  "index_from i c [] = None"
| "index_from i c (x # xs) = (if c = x then Some i else index_from (i + 1) c xs)"

fun base58_value :: "nat \<Rightarrow> jsstring \<Rightarrow> nat option" where
  "base58_value acc [] = Some acc"
| "base58_value acc (c # cs) =
     (case index_from 0 c base58_alphabet of
        None \<Rightarrow> None
      | Some d \<Rightarrow> base58_value (58 * acc + d) cs)"

text \<open>The number of bytes a base-58 string decodes to: a zero byte for each leading \<^verbatim>\<open>1\<close>.\<close>

definition decoded_length :: "jsstring \<Rightarrow> nat option" where
  "decoded_length x =
     (case base58_value 0 x of
        None \<Rightarrow> None
      | Some v \<Rightarrow>
          Some (length (takeWhile (\<lambda>c. c = of_char CHR ''1'') x)
                + (if v = 0 then 0 else ilog2 v div 8 + 1)))"

definition example_PublicKey_new :: "jsstring \<Rightarrow> thrown + PublicKey" where
  "example_PublicKey_new x =
     (case decoded_length x of
        None \<Rightarrow> Inl (Error (js ''Non-base58 character''))
      | Some n \<Rightarrow> if n = 32 then Inr x else Inl (Error (js ''Invalid public key input'')))"

text \<open>
  The number-to-string conversion, at the one value the examples print (elsewhere it
  is not meant).
\<close>

definition example_Number_toString :: "rat \<Rightarrow> jsstring" where
  "example_Number_toString q =
     (if q = 8804682956800001 / 2147483648 then js ''4100000.0000000005'' else js ''1e+21'')"

definition example_SystemProgram_transfer :: "TransferParams \<Rightarrow> thrown + TransactionInstruction" where
  "example_SystemProgram_transfer p =
     (if isInteger (lamports p) then Inr (Instruction p)
      else Inl (Error (js ''The number ''
             @ (case lamports p of
                  NaN \<Rightarrow> js ''NaN''
                | PosInfinity \<Rightarrow> js ''Infinity''
                | NegInfinity \<Rightarrow> js ''-Infinity''
                | Finite q \<Rightarrow> example_Number_toString q)
             @ js '' cannot be converted to a BigInt because it is not an integer'')))"

definition example_env :: env where
  "example_env =
     \<lparr>PublicKey_new = example_PublicKey_new,
      SystemProgram_transfer = example_SystemProgram_transfer,
      signAndSendTransaction = (\<lambda>_. Inr (js ''5x7y'')),
      sendTransaction = (\<lambda>_. Inr (js ''5x7y'')),
      getBalance = (\<lambda>_. Inr (Finite 500000000)),
      Number_toString = example_Number_toString\<rparr>"

definition owner_key :: PublicKey where
  "owner_key = js ''4Nd1mBQtrMJVYVfKf2PJy9NZUZdTAsp7D4xWLs4gDB4T''"

definition recipient_key :: PublicKey where
  "recipient_key = js ''GsbwXfJraMomNxBcjYLcG3mxkBUiyWXAB32fGbSMQRdW''"

definition example_wallet_direct :: wallet_direct where
  "example_wallet_direct =
     \<lparr>smartWalletPubkey = Some owner_key, wallet = Some \<lparr>smartWallet = owner_key\<rparr>,
      isConnected = True, isConnecting = False\<rparr>"

definition example_wallet_standard :: wallet_standard where
  "example_wallet_standard = \<lparr>publicKey = Some owner_key, connected = True\<rparr>"

text \<open>The send form filled in, with a balance of one SOL.\<close>

definition example_state :: "jsstring \<Rightarrow> state" where
  "example_state amt =
     \<lparr>balance = Some (Finite 1), copied = False, showSendModal = True,
      recipient = js '' GsbwXfJraMomNxBcjYLcG3mxkBUiyWXAB32fGbSMQRdW '', amount = amt,
      txHash = None, txError = [], sending = False\<rparr>"

text \<open>The same environment with the balance query failing, and with the provider rejecting.\<close>

definition offline_env :: env where
  "offline_env = example_env\<lparr>getBalance := (\<lambda>_. Inl (Error (js ''failed to fetch'')))\<rparr>"

definition rejecting_env :: "thrown \<Rightarrow> env" where
  "rejecting_env err =
     example_env\<lparr>signAndSendTransaction := (\<lambda>_. Inl err), sendTransaction := (\<lambda>_. Inl err)\<rparr>"

section \<open>Evaluating the JavaScript functions on literals\<close>

lemma floor_numeral_div: "\<lfloor>(numeral a :: rat) / numeral b\<rfloor> = numeral a div numeral b"
  using floor_divide_of_int_eq [of "numeral a" "numeral b", where ?'a = rat] by simp

lemma floor_one_div: "\<lfloor>(1 :: rat) / numeral b\<rfloor> = 1 div numeral b"
  using floor_divide_of_int_eq [of 1 "numeral b", where ?'a = rat] by simp

lemma replicate_numeral: "replicate (numeral k) x = x # replicate (pred_numeral k) x"
  by (simp add: numeral_eq_Suc)

lemma ilog2_numeral:
  "ilog2 (numeral k) = (if (numeral k :: nat) < 2 then 0 else 1 + ilog2 (numeral k div 2))"
  by (rule ilog2.simps)

lemma ilog2_0: "ilog2 0 = 0"
  by (simp add: ilog2.simps [of 0])

lemma ilog2_1: "ilog2 1 = 0"
  by (subst ilog2.simps) simp

lemma ilog2_Suc_0: "ilog2 (Suc 0) = 0"
  by (subst ilog2.simps) simp

lemma decimalDigits_numeral:
  "decimalDigits (numeral k) =
     (if (numeral k :: nat) < 10 then [digitChar (numeral k)]
      else decimalDigits (numeral k div 10) @ [digitChar (numeral k mod 10)])"
  by (rule decimalDigits.simps)

lemma decimalDigits_0: "decimalDigits 0 = js ''0''"
  by (simp add: decimalDigits.simps [of 0] digitChar_def js_def)

lemma decimalDigits_1: "decimalDigits 1 = js ''1''"
  by (subst decimalDigits.simps) (simp add: digitChar_def js_def)

lemma decimalDigits_Suc_0: "decimalDigits (Suc 0) = js ''1''"
  by (subst decimalDigits.simps) (simp add: digitChar_def js_def)

lemmas binary64_eval = binary64_def floor_log2_def round_half_even_def pow2_def Let_def
  floor_numeral_div floor_one_div ilog2_numeral ilog2_0 ilog2_1 ilog2_Suc_0

lemmas toFixed_eval = toFixed_nonneg_def floor_numeral_div floor_one_div replicate_numeral
  decimalDigits_numeral decimalDigits_0 decimalDigits_1 decimalDigits_Suc_0 digitChar_def js_def

lemmas parseFloat_eval = parseFloat_def StrDecimalLiteral_def trimStart_def isWhiteSpace_def
  StrUnsignedDecimalLiteral_def isDigit_def digitsValue_def digitValue_def ExponentPart_def
  scale10_def js_def

lemma binary64_half: "binary64 (1 / 2) = Finite (1 / 2)"
  by (simp add: binary64_eval)

lemma RENT_RESERVE_value: "RENT_RESERVE = Finite (1152921504606847 / 1152921504606846976)"
  by (simp add: RENT_RESERVE_def binary64_eval)

lemma one_minus_reserve:
  "js_minus (Finite 1) RENT_RESERVE = Finite (8998192055486251 / 9007199254740992)"
  by (simp add: RENT_RESERVE_value binary64_eval)


lemma parseFloat_0_5: "parseFloat (js ''0.5'') = Finite (1 / 2)"
  by (simp add: parseFloat_eval binary64_eval)

lemma parseFloat_abc: "parseFloat (js ''abc'') = NaN"
  by (simp add: parseFloat_eval)

lemma parseFloat_0_0041:
  "parseFloat (js ''0.0041'') = Finite (4726978168888073 / 1152921504606846976)"
  by (simp add: parseFloat_eval binary64_eval)

lemma lamports_0_0041:
  "js_times (Finite (4726978168888073 / 1152921504606846976)) LAMPORTS_PER_SOL
     = Finite (8804682956800001 / 2147483648)"
  by (simp add: LAMPORTS_PER_SOL_def binary64_eval)

lemma parseFloat_0_010:
  "parseFloat (js ''0.010'') = Finite (5764607523034235 / 576460752303423488)"
  by (simp add: parseFloat_eval binary64_eval)

lemma balance_0_011:
  "js_divide (Finite 11000000) LAMPORTS_PER_SOL
     = Finite (3170534137668829 / 288230376151711744)"
  by (simp add: LAMPORTS_PER_SOL_def binary64_eval)

lemma reserve_of_0_011:
  "js_minus (Finite (3170534137668829 / 288230376151711744)) RENT_RESERVE
     = Finite (2882303761517117 / 288230376151711744)"
  by (simp add: RENT_RESERVE_value binary64_eval)


lemma toFixed_0_00999:
  "toFixed f (Finite (2882303761517117 / 288230376151711744)) 4 = js ''0.0100''"
  by (simp add: toFixed_eval)

lemma parseFloat_nbsp: "parseFloat ([160, 8195] @ js ''0.5'') = Finite (1 / 2)"
  by (simp add: parseFloat_eval binary64_eval)

lemma trim_example_recipient:
  "trim (js '' GsbwXfJraMomNxBcjYLcG3mxkBUiyWXAB32fGbSMQRdW '') = recipient_key"
  by (simp add: trim_def isWhiteSpace_def recipient_key_def js_def)

text \<open>A no-break space, an em space, an ideographic space and a byte order mark are stripped too.\<close>

lemma trim_unicode_spaces:
  "trim ([160, 8195] @ js ''GsbwXfJraMomNxBcjYLcG3mxkBUiyWXAB32fGbSMQRdW'' @ [12288, 65279])
     = recipient_key"
  by (simp add: trim_def isWhiteSpace_def recipient_key_def js_def)

lemma example_recipient_parses: "example_PublicKey_new recipient_key = Inr recipient_key"
  by (simp add: example_PublicKey_new_def decoded_length_def recipient_key_def
        base58_alphabet_def js_def ilog2_numeral ilog2_1 ilog2_Suc_0)

lemma example_bad_recipient:
  "example_PublicKey_new (js ''me'') = Inl (Error (js ''Invalid public key input''))"
  by (simp add: example_PublicKey_new_def decoded_length_def
        base58_alphabet_def js_def ilog2_numeral ilog2_1 ilog2_Suc_0)

lemma example_recipient_ok:
  "PublicKey_new example_env (trim (recipient (example_state amt))) = Inr recipient_key"
  by (simp add: example_env_def example_state_def trim_example_recipient
        example_recipient_parses)

section \<open>Running effect lists\<close>

lemma run_Nil [simp]: "run [] s = s"
  by (simp add: run_def)

lemma run_Cons [simp]: "run (e # es) s = run es (apply_effect s e)"
  by (simp add: run_def)

lemma run_append [simp]: "run (xs @ ys) s = run ys (run xs s)"
  by (simp add: run_def)

section \<open>Properties of balance tracking\<close>

lemma snd_refreshBalance [simp]: "snd (refreshBalance env key) = Inr ()"
  by (simp add: refreshBalance_def split: option.split sum.split)

lemma refreshBalance_keeps_form:
  "recipient (run (fst (refreshBalance env key)) s) = recipient s
   \<and> amount (run (fst (refreshBalance env key)) s) = amount s
   \<and> txHash (run (fst (refreshBalance env key)) s) = txHash s
   \<and> txError (run (fst (refreshBalance env key)) s) = txError s
   \<and> sending (run (fst (refreshBalance env key)) s) = sending s
   \<and> showSendModal (run (fst (refreshBalance env key)) s) = showSendModal s"
  by (simp add: refreshBalance_def split: option.split sum.split)

text \<open>
  C9. When the key is absent, \<^verbatim>\<open>refreshBalance\<close> returns at once: it does nothing at
  all, so it makes no balance query, and the state (the stored balance with it) is
  what it was. This is the one \<^verbatim>\<open>refreshBalance\<close> of both variants.
\<close>

theorem refreshBalance_without_key:
  "refreshBalance env None = ([], Inr ())
   \<and> (\<forall>k. Call_getBalance k \<notin> set (fst (refreshBalance env None)))
   \<and> run (fst (refreshBalance env None)) s = s"
  by (simp add: refreshBalance_def)

theorem refreshBalance_without_key_witness:
  "refreshBalance example_env (smartWalletPubkey (example_wallet_direct\<lparr>smartWalletPubkey := None\<rparr>))
     = ([], Inr ())
   \<and> balance (run (fst (refreshBalance example_env
                 (publicKey (example_wallet_standard\<lparr>publicKey := None\<rparr>))))
          (example_state (js ''0.5''))) = Some (Finite 1)"
  using refreshBalance_without_key [of example_env "example_state (js ''0.5'')"]
  by (simp add: example_state_def)

text \<open>
  C6. When the balance query throws, \<^verbatim>\<open>refreshBalance\<close> logs the error and returns
  normally, and the state is what it was: a known balance stays known, with the same
  value.
\<close>

theorem refreshBalance_failure_keeps_balance:
  assumes "getBalance env k = Inl e"
  shows "refreshBalance env (Some k)
           = ([Call_getBalance k, Console_error (js ''Balance refresh error:'')], Inr ())
         \<and> run (fst (refreshBalance env (Some k))) s = s"
  using assms by (simp add: refreshBalance_def)

theorem refreshBalance_failure_keeps_balance_witness:
  "getBalance offline_env owner_key = Inl (Error (js ''failed to fetch''))
   \<and> snd (refreshBalance offline_env (Some owner_key)) = Inr ()
   \<and> balance (run (fst (refreshBalance offline_env (Some owner_key))) (example_state (js ''0.5'')))
       = Some (Finite 1)"
  using refreshBalance_failure_keeps_balance
          [of offline_env owner_key "Error (js ''failed to fetch'')" "example_state (js ''0.5'')"]
  by (simp add: offline_env_def example_env_def example_state_def)


section \<open>Properties of the validation\<close>

lemma validateTransfer_bad_recipient:
  "PublicKey_new env (trim (recipient s)) = Inl e \<Longrightarrow> validateTransfer env s = Inl e"
  by (simp add: validateTransfer_def)

lemma validateTransfer_invalid_amount:
  "PublicKey_new env (trim (recipient s)) = Inr rk \<Longrightarrow>
   isNaN (parseFloat (amount s)) \<or> js_le (parseFloat (amount s)) (Finite 0) \<Longrightarrow>
   validateTransfer env s = Inl (Error (js ''Invalid amount''))"
  by (auto simp add: validateTransfer_def)

lemma validateTransfer_known_balance:
  assumes "PublicKey_new env (trim (recipient s)) = Inr rk"
      and "balance s = Some (Finite b)"
      and "parseFloat (amount s) = a"
  shows "validateTransfer env s =
           (if isNaN a \<or> js_le a (Finite 0) then Inl (Error (js ''Invalid amount''))
            else if js_gt a (Finite b) then Inl (Error (js ''Insufficient balance''))
            else if js_gt a (Math_max (Finite 0) (js_minus (Finite b) RENT_RESERVE))
            then Inl (Error ((js ''Amount too high. Keep at least 0.001 SOL for rent. Max sendable: '')
                   @ toFixed (Number_toString env)
                       (Math_max (Finite 0) (js_minus (Finite b) RENT_RESERVE)) 4 @ (js '' SOL'')))
            else Inr (rk, a))"
  using assms by (simp add: validateTransfer_def Let_def)


lemma try_direct_rejected:
  assumes "smartWalletPubkey w = Some k" "isConnected w" "wallet w = Some wi"
      and "validateTransfer env s = Inl err"
  shows "try_direct env w s = ([], Inl err)"
  using assms by (simp add: try_direct_def)

lemma try_standard_rejected:
  assumes "publicKey w = Some k" "connected w"
      and "validateTransfer env s = Inl err"
  shows "try_standard env w s = ([], Inl err)"
  using assms by (simp add: try_standard_def)

lemma handle_direct_rejected:
  assumes "smartWalletPubkey w = Some k" "isConnected w" "wallet w = Some wi"
      and "validateTransfer env s = Inl err"
  shows "handleSendTransaction_direct env w s =
           ([PreventDefault, SetTxError [], SetTxHash None, SetSending True,
             Console_error (js ''Transaction failed:''),
             SetTxError (errorMessage_direct env (balance s) err), SetSending False], Inr ())"
  by (simp add: handleSendTransaction_direct_def try_direct_rejected [OF assms])

lemma handle_standard_rejected:
  assumes "publicKey w = Some k" "connected w"
      and "validateTransfer env s = Inl err"
  shows "handleSendTransaction_standard env w s =
           ([PreventDefault, SetTxError [], SetTxHash None, SetSending True,
             Console_error (js ''Transaction failed:''),
             SetTxError (errorMessage_standard env (balance s) err), SetSending False], Inr ())"
  by (simp add: handleSendTransaction_standard_def try_standard_rejected [OF assms])


section \<open>Properties of the send handlers\<close>

lemma validateTransfer_accepted:
  assumes "validateTransfer env s = Inr (rk, a)"
  shows "PublicKey_new env (trim (recipient s)) = Inr rk \<and> a = parseFloat (amount s)
         \<and> \<not> isNaN a \<and> \<not> js_le a (Finite 0)"
  using assms
  by (auto simp add: validateTransfer_def Let_def split: sum.splits if_splits)

lemma try_direct_failed:
  assumes "snd (try_direct env w s) = Inl err"
  shows "run (fst (try_direct env w s)) t = t"
  using assms
  by (auto simp add: try_direct_def Let_def split: option.splits sum.splits if_splits prod.splits)

lemma try_standard_failed:
  assumes "snd (try_standard env w s) = Inl err"
  shows "run (fst (try_standard env w s)) t = t"
  using assms
  by (auto simp add: try_standard_def Let_def split: option.splits sum.splits if_splits prod.splits)

lemma try_direct_succeeded:
  assumes "smartWalletPubkey w = Some k" "isConnected w" "wallet w = Some wi"
      and "validateTransfer env s = Inr (rk, a)"
      and "SystemProgram_transfer env (transfer_params k rk a) = Inr i"
      and "signAndSendTransaction env (sign_payload i) = Inr signature"
  shows "try_direct env w s =
           ([Call_SystemProgram_transfer (transfer_params k rk a),
             Console_log (js ''Attempting to sign transaction...''),
             Call_signAndSendTransaction (sign_payload i),
             Console_log (js ''Transaction successful:''),
             SetTxHash (Some signature), SetRecipient [], SetAmount []]
            @ fst (refreshBalance env (Some k)), Inr ())"
  using assms by (simp add: try_direct_def Let_def)

lemma try_standard_succeeded:
  assumes "publicKey w = Some k" "connected w"
      and "validateTransfer env s = Inr (rk, a)"
      and "SystemProgram_transfer env (transfer_params k rk a) = Inr i"
      and "sendTransaction env (Transaction [i]) = Inr signature"
  shows "try_standard env w s =
           ([Call_SystemProgram_transfer (transfer_params k rk a),
             Console_log (js ''Attempting to send transaction...''),
             Call_sendTransaction (Transaction [i]),
             Console_log (js ''Transaction successful:''),
             SetTxHash (Some signature), SetRecipient [], SetAmount []]
            @ fst (refreshBalance env (Some k)), Inr ())"
  using assms by (simp add: try_standard_def Let_def)

lemma try_direct_returned:
  assumes "snd (try_direct env w s) = Inr u"
  shows "\<exists>k wi rk a i signature.
           smartWalletPubkey w = Some k \<and> isConnected w \<and> wallet w = Some wi
           \<and> validateTransfer env s = Inr (rk, a)
           \<and> SystemProgram_transfer env (transfer_params k rk a) = Inr i
           \<and> signAndSendTransaction env (sign_payload i) = Inr signature"
  using assms
  by (auto simp add: try_direct_def Let_def split: option.splits sum.splits if_splits prod.splits)

lemma try_standard_returned:
  assumes "snd (try_standard env w s) = Inr u"
  shows "\<exists>k rk a i signature.
           publicKey w = Some k \<and> connected w
           \<and> validateTransfer env s = Inr (rk, a)
           \<and> SystemProgram_transfer env (transfer_params k rk a) = Inr i
           \<and> sendTransaction env (Transaction [i]) = Inr signature"
  using assms
  by (auto simp add: try_standard_def Let_def split: option.splits sum.splits if_splits prod.splits)

lemma handle_direct_failed:
  assumes "snd (try_direct env w s) = Inl err"
  shows "run (fst (handleSendTransaction_direct env w s)) s
           = s\<lparr>txHash := None, txError := errorMessage_direct env (balance s) err,
               sending := False\<rparr>"
  using assms try_direct_failed [OF assms]
  by (simp add: handleSendTransaction_direct_def Let_def)

lemma handle_standard_failed:
  assumes "snd (try_standard env w s) = Inl err"
  shows "run (fst (handleSendTransaction_standard env w s)) s
           = s\<lparr>txHash := None, txError := errorMessage_standard env (balance s) err,
               sending := False\<rparr>"
  using assms try_standard_failed [OF assms]
  by (simp add: handleSendTransaction_standard_def Let_def)

lemma handle_direct_succeeded:
  assumes "smartWalletPubkey w = Some k" "isConnected w" "wallet w = Some wi"
      and "validateTransfer env s = Inr (rk, a)"
      and "SystemProgram_transfer env (transfer_params k rk a) = Inr i"
      and "signAndSendTransaction env (sign_payload i) = Inr signature"
  shows "fst (handleSendTransaction_direct env w s) =
           [PreventDefault, SetTxError [], SetTxHash None, SetSending True,
            Call_SystemProgram_transfer (transfer_params k rk a),
            Console_log (js ''Attempting to sign transaction...''),
            Call_signAndSendTransaction (sign_payload i),
            Console_log (js ''Transaction successful:''),
            SetTxHash (Some signature), SetRecipient [], SetAmount []]
           @ fst (refreshBalance env (Some k)) @ [SetSending False]"
  by (simp add: handleSendTransaction_direct_def Let_def try_direct_succeeded [OF assms])

lemma handle_standard_succeeded:
  assumes "publicKey w = Some k" "connected w"
      and "validateTransfer env s = Inr (rk, a)"
      and "SystemProgram_transfer env (transfer_params k rk a) = Inr i"
      and "sendTransaction env (Transaction [i]) = Inr signature"
  shows "fst (handleSendTransaction_standard env w s) =
           [PreventDefault, SetTxError [], SetTxHash None, SetSending True,
            Call_SystemProgram_transfer (transfer_params k rk a),
            Console_log (js ''Attempting to send transaction...''),
            Call_sendTransaction (Transaction [i]),
            Console_log (js ''Transaction successful:''),
            SetTxHash (Some signature), SetRecipient [], SetAmount []]
           @ fst (refreshBalance env (Some k)) @ [SetSending False]"
  by (simp add: handleSendTransaction_standard_def Let_def try_standard_succeeded [OF assms])

lemma handle_direct_returns: "snd (handleSendTransaction_direct env w s) = Inr ()"
  by (simp add: handleSendTransaction_direct_def Let_def)

lemma handle_standard_returns: "snd (handleSendTransaction_standard env w s) = Inr ()"
  by (simp add: handleSendTransaction_standard_def Let_def)

lemma handle_direct_cleared:
  assumes "snd (try_direct env w s) = Inr u"
  shows "recipient (run (fst (handleSendTransaction_direct env w s)) s) = []
         \<and> amount (run (fst (handleSendTransaction_direct env w s)) s) = []
         \<and> txError (run (fst (handleSendTransaction_direct env w s)) s) = []
         \<and> (\<exists>signature. txHash (run (fst (handleSendTransaction_direct env w s)) s)
               = Some signature)"
proof -
  from try_direct_returned [OF assms] obtain k wi rk a i signature where
    h: "smartWalletPubkey w = Some k" "isConnected w" "wallet w = Some wi"
       "validateTransfer env s = Inr (rk, a)"
       "SystemProgram_transfer env (transfer_params k rk a) = Inr i"
       "signAndSendTransaction env (sign_payload i) = Inr signature"
    by blast
  show ?thesis
    by (simp add: handle_direct_succeeded [OF h] refreshBalance_keeps_form)
qed

lemma handle_standard_cleared:
  assumes "snd (try_standard env w s) = Inr u"
  shows "recipient (run (fst (handleSendTransaction_standard env w s)) s) = []
         \<and> amount (run (fst (handleSendTransaction_standard env w s)) s) = []
         \<and> txError (run (fst (handleSendTransaction_standard env w s)) s) = []
         \<and> (\<exists>signature. txHash (run (fst (handleSendTransaction_standard env w s)) s)
               = Some signature)"
proof -
  from try_standard_returned [OF assms] obtain k rk a i signature where
    h: "publicKey w = Some k" "connected w"
       "validateTransfer env s = Inr (rk, a)"
       "SystemProgram_transfer env (transfer_params k rk a) = Inr i"
       "sendTransaction env (Transaction [i]) = Inr signature"
    by blast
  show ?thesis
    by (simp add: handle_standard_succeeded [OF h] refreshBalance_keeps_form)
qed

lemma try_direct_provider_rejects:
  assumes "smartWalletPubkey w = Some k" "isConnected w" "wallet w = Some wi"
      and "validateTransfer env s = Inr (rk, a)"
      and "SystemProgram_transfer env (transfer_params k rk a) = Inr i"
      and "signAndSendTransaction env (sign_payload i) = Inl err"
  shows "try_direct env w s =
           ([Call_SystemProgram_transfer (transfer_params k rk a),
             Console_log (js ''Attempting to sign transaction...''),
             Call_signAndSendTransaction (sign_payload i)], Inl err)"
  using assms by (simp add: try_direct_def Let_def)

lemma try_standard_provider_rejects:
  assumes "publicKey w = Some k" "connected w"
      and "validateTransfer env s = Inr (rk, a)"
      and "SystemProgram_transfer env (transfer_params k rk a) = Inr i"
      and "sendTransaction env (Transaction [i]) = Inl err"
  shows "try_standard env w s =
           ([Call_SystemProgram_transfer (transfer_params k rk a),
             Console_log (js ''Attempting to send transaction...''),
             Call_sendTransaction (Transaction [i])], Inl err)"
  using assms by (simp add: try_standard_def Let_def)

lemma try_direct_builder_throws:
  assumes "smartWalletPubkey w = Some k" "isConnected w" "wallet w = Some wi"
      and "validateTransfer env s = Inr (rk, a)"
      and "SystemProgram_transfer env (transfer_params k rk a) = Inl err"
  shows "try_direct env w s = ([Call_SystemProgram_transfer (transfer_params k rk a)], Inl err)"
  using assms by (simp add: try_direct_def Let_def)

lemma try_standard_builder_throws:
  assumes "publicKey w = Some k" "connected w"
      and "validateTransfer env s = Inr (rk, a)"
      and "SystemProgram_transfer env (transfer_params k rk a) = Inl err"
  shows "try_standard env w s = ([Call_SystemProgram_transfer (transfer_params k rk a)], Inl err)"
  using assms by (simp add: try_standard_def Let_def)


section \<open>The definitions on the example values\<close>

lemma example_wallets:
  "smartWalletPubkey example_wallet_direct = Some owner_key"
  "isConnected example_wallet_direct"
  "wallet example_wallet_direct = Some \<lparr>smartWallet = owner_key\<rparr>"
  "publicKey example_wallet_standard = Some owner_key"
  "connected example_wallet_standard"
  by (simp_all add: example_wallet_direct_def example_wallet_standard_def)

lemma lamports_of_half:
  "transfer_params k rk (Finite (1 / 2))
     = \<lparr>fromPubkey = k, toPubkey = rk, lamports = Finite 500000000\<rparr>"
  by (simp add: transfer_params_def LAMPORTS_PER_SOL_def binary64_eval)

lemma example_builder_half:
  "example_SystemProgram_transfer (transfer_params k rk (Finite (1 / 2)))
     = Inr (Instruction (transfer_params k rk (Finite (1 / 2))))"
  by (simp add: lamports_of_half example_SystemProgram_transfer_def)

lemma rejecting_env_fields:
  "PublicKey_new (rejecting_env err) = example_PublicKey_new"
  "SystemProgram_transfer (rejecting_env err) (transfer_params k rk (Finite (1 / 2)))
     = Inr (Instruction (transfer_params k rk (Finite (1 / 2))))"
  "signAndSendTransaction (rejecting_env err) pl = Inl err"
  "sendTransaction (rejecting_env err) tx = Inl err"
  by (simp_all add: rejecting_env_def example_env_def example_builder_half)

lemma example_env_fields:
  "PublicKey_new example_env = example_PublicKey_new"
  "SystemProgram_transfer example_env (transfer_params k rk (Finite (1 / 2)))
     = Inr (Instruction (transfer_params k rk (Finite (1 / 2))))"
  "signAndSendTransaction example_env pl = Inr (js ''5x7y'')"
  "sendTransaction example_env tx = Inr (js ''5x7y'')"
  "getBalance example_env key = Inr (Finite 500000000)"
  by (simp_all add: example_env_def example_builder_half)

text \<open>
  The example form is accepted for any positive amount up to the binary64 result of
  \<^verbatim>\<open>1 - 0.001\<close>.
\<close>

lemma validate_example:
  assumes "PublicKey_new env = example_PublicKey_new"
      and "parseFloat amt = Finite q" and "0 < q"
      and "q \<le> 8998192055486251 / 9007199254740992"
  shows "validateTransfer env (example_state amt) = Inr (recipient_key, Finite q)"
proof -
  have r: "PublicKey_new env (trim (recipient (example_state amt))) = Inr recipient_key"
    by (simp add: assms(1) example_state_def trim_example_recipient example_recipient_parses)
  have b: "balance (example_state amt) = Some (Finite 1)"
    and p: "parseFloat (amount (example_state amt)) = Finite q"
    by (simp_all add: example_state_def assms(2))
  show ?thesis
    using assms(3,4)
    by (simp add: validateTransfer_known_balance [OF r b p] js_gt_def Math_max_def
          one_minus_reserve)
qed

lemma validate_example_half:
  "PublicKey_new env = example_PublicKey_new \<Longrightarrow>
   validateTransfer env (example_state (js ''0.5'')) = Inr (recipient_key, Finite (1 / 2))"
  by (rule validate_example [OF _ parseFloat_0_5]) simp_all

lemma try_direct_rejecting_example:
  "try_direct (rejecting_env err) example_wallet_direct (example_state (js ''0.5'')) =
     ([Call_SystemProgram_transfer (transfer_params owner_key recipient_key (Finite (1 / 2))),
       Console_log (js ''Attempting to sign transaction...''),
       Call_signAndSendTransaction
         (sign_payload (Instruction (transfer_params owner_key recipient_key (Finite (1 / 2)))))],
      Inl err)"
  by (rule try_direct_provider_rejects [OF example_wallets(1-3)])
     (simp_all add: validate_example_half rejecting_env_fields)

lemma try_standard_rejecting_example:
  "try_standard (rejecting_env err) example_wallet_standard (example_state (js ''0.5'')) =
     ([Call_SystemProgram_transfer (transfer_params owner_key recipient_key (Finite (1 / 2))),
       Console_log (js ''Attempting to send transaction...''),
       Call_sendTransaction
         (Transaction [Instruction (transfer_params owner_key recipient_key (Finite (1 / 2)))])],
      Inl err)"
  by (rule try_standard_provider_rejects [OF example_wallets(4-5)])
     (simp_all add: validate_example_half rejecting_env_fields)


section \<open>When the checks reject\<close>





text \<open>
  Two more runs of the checks. An amount of a half against the balance 1 is accepted
  and the provider is called. At a balance of 11000000 lamports, which is stored as the
  binary64 number nearest to 0.011, the amount \<^verbatim>\<open>0.010\<close> is rejected for the reserve,
  although the message reports 0.0100 as the most that can be sent: the binary64
  difference \<^verbatim>\<open>0.011 - 0.001\<close> is just below the binary64 number nearest to 0.01.
\<close>

lemma half_is_submitted:
  "try_direct example_env example_wallet_direct (example_state (js ''0.5'')) =
     ([Call_SystemProgram_transfer (transfer_params owner_key recipient_key (Finite (1 / 2))),
       Console_log (js ''Attempting to sign transaction...''),
       Call_signAndSendTransaction
         (sign_payload (Instruction (transfer_params owner_key recipient_key (Finite (1 / 2))))),
       Console_log (js ''Transaction successful:''),
       SetTxHash (Some (js ''5x7y'')), SetRecipient [], SetAmount []]
      @ fst (refreshBalance example_env (Some owner_key)), Inr ())"
  by (rule try_direct_succeeded [OF example_wallets(1-3)])
     (simp_all add: validate_example_half example_env_fields)

lemma boundary_amount_rejected:
  "validateTransfer example_env
     ((example_state (js ''0.010''))\<lparr>balance := Some (js_divide (Finite 11000000) LAMPORTS_PER_SOL)\<rparr>)
     = Inl (Error (js ''Amount too high. Keep at least 0.001 SOL for rent. Max sendable: 0.0100 SOL''))"
proof -
  let ?s = "(example_state (js ''0.010''))
              \<lparr>balance := Some (js_divide (Finite 11000000) LAMPORTS_PER_SOL)\<rparr>"
  have r: "PublicKey_new example_env (trim (recipient ?s)) = Inr recipient_key"
    using example_recipient_ok [of "js ''0.010''"] by (simp add: example_state_def)
  have b: "balance ?s = Some (Finite (3170534137668829 / 288230376151711744))"
    by (simp add: balance_0_011)
  have p: "parseFloat (amount ?s) = Finite (5764607523034235 / 576460752303423488)"
    by (simp add: example_state_def parseFloat_0_010)
  have m: "Math_max (Finite 0)
             (js_minus (Finite (3170534137668829 / 288230376151711744)) RENT_RESERVE)
           = Finite (2882303761517117 / 288230376151711744)"
    by (simp add: Math_max_def reserve_of_0_011)
  have t: "js ''Amount too high. Keep at least 0.001 SOL for rent. Max sendable: ''
               @ js ''0.0100'' @ js '' SOL''
             = js ''Amount too high. Keep at least 0.001 SOL for rent. Max sendable: 0.0100 SOL''"
    by (simp add: js_def)
  show ?thesis
    by (simp add: validateTransfer_known_balance [OF r b p] js_gt_def m toFixed_0_00999 t
          del: toFixed.simps)
qed

section \<open>The order of the checks\<close>

lemma errorMessage_direct_invalid_amount:
  "errorMessage_direct env b (Error (js ''Invalid amount'')) = js ''Invalid amount''"
  by (simp add: errorMessage_direct_def js_def)

lemma errorMessage_standard_invalid_amount:
  "errorMessage_standard env b (Error (js ''Invalid amount'')) = js ''Invalid amount''"
  by (simp add: errorMessage_standard_def js_def)

lemma binary64_not_NaN: "binary64 q \<noteq> NaN"
  by (simp add: binary64_def Let_def)

lemma takeWhile_isDigit_Nil:
  "takeWhile isDigit u = [] \<longleftrightarrow> (case u of [] \<Rightarrow> True | c # _ \<Rightarrow> \<not> isDigit c)"
  by (cases u) simp_all

lemma StrUnsignedDecimalLiteral_None_iff:
  "StrUnsignedDecimalLiteral u = None \<longleftrightarrow>
     \<not> (startsWith u (js ''Infinity'')
        \<or> (case u of [] \<Rightarrow> False
            | c # r \<Rightarrow> isDigit c
                \<or> (c = of_char CHR ''.'' \<and> (case r of [] \<Rightarrow> False | d # _ \<Rightarrow> isDigit d))))"
proof (cases u)
  case Nil
  then show ?thesis
    by (simp add: StrUnsignedDecimalLiteral_def js_def)
next
  case (Cons c r)
  show ?thesis
  proof (cases "startsWith u (js ''Infinity'')")
    case True
    then show ?thesis
      by (simp add: StrUnsignedDecimalLiteral_def)
  next
    case False
    show ?thesis
    proof (cases "isDigit c")
      case True
      with False Cons show ?thesis
        by (simp add: StrUnsignedDecimalLiteral_def Let_def)
    next
      case no_digit: False
      with False Cons show ?thesis
        by (cases r) (auto simp add: StrUnsignedDecimalLiteral_def Let_def)
    qed
  qed
qed

lemma StrDecimalLiteral_None_iff: "StrDecimalLiteral s = None \<longleftrightarrow> \<not> begins_with_number s"
proof (cases "trimStart s")
  case Nil
  then show ?thesis
    by (simp add: StrDecimalLiteral_def begins_with_number_def js_def)
next
  case (Cons c t)
  then show ?thesis
    by (simp add: StrDecimalLiteral_def begins_with_number_def Let_def
          StrUnsignedDecimalLiteral_None_iff)
qed

lemma parseFloat_NaN_iff: "isNaN (parseFloat s) \<longleftrightarrow> \<not> begins_with_number s"
proof -
  have "isNaN (parseFloat s) \<longleftrightarrow> StrDecimalLiteral s = None"
    using binary64_not_NaN
    by (auto simp add: parseFloat_def split: option.splits literal.splits
          elim: isNaN.elims)
  then show ?thesis
    by (simp add: StrDecimalLiteral_None_iff)
qed

lemma abc_is_no_number: "\<not> begins_with_number (js ''abc'')"
  by (simp add: begins_with_number_def trimStart_def isWhiteSpace_def isDigit_def js_def)

lemma parseFloat_0_5abc: "parseFloat (js ''0.5abc'') = Finite (1 / 2)"
  by (simp add: parseFloat_eval binary64_eval)

lemma not_numeric_0_5abc: "\<not> numeric_string (js ''0.5abc'')"
  by (simp add: numeric_string_def StrDecimalLiteral_def trimStart_def isWhiteSpace_def
        StrUnsignedDecimalLiteral_def isDigit_def ExponentPart_def js_def Let_def)

text \<open>
  C8, as the code has it. The checks run in a fixed order and the first failure wins. A
  recipient that does not parse ends the validation with the parser's error whatever
  the amount and the balance are. With a recipient that parses, an amount that does not
  begin with a number (as \<^verbatim>\<open>abc\<close>), or whose leading number is zero or negative, ends it
  with \<^verbatim>\<open>Invalid amount\<close> whatever the balance is, and with the wallet connected both
  handlers then show exactly that message. The amounts \<^verbatim>\<open>parseFloat\<close> turns into \<open>NaN\<close> are
  exactly those that do not begin with a number; what follows a leading number is
  ignored.
\<close>

theorem validation_order:
  "(PublicKey_new env (trim (recipient s)) = Inl e \<longrightarrow>
      (\<forall>amt bal. validateTransfer env (s\<lparr>amount := amt, balance := bal\<rparr>) = Inl e))
   \<and> (PublicKey_new env (trim (recipient s)) = Inr rk
        \<and> (\<not> begins_with_number (amount s) \<or> js_le (parseFloat (amount s)) (Finite 0)) \<longrightarrow>
      (\<forall>bal. validateTransfer env (s\<lparr>balance := bal\<rparr>) = Inl (Error (js ''Invalid amount''))
        \<and> (smartWalletPubkey wd = Some k \<and> isConnected wd \<and> wallet wd = Some wi \<longrightarrow>
             txError (run (fst (handleSendTransaction_direct env wd (s\<lparr>balance := bal\<rparr>)))
                        (s\<lparr>balance := bal\<rparr>)) = js ''Invalid amount'')
        \<and> (publicKey ws = Some k \<and> connected ws \<longrightarrow>
             txError (run (fst (handleSendTransaction_standard env ws (s\<lparr>balance := bal\<rparr>)))
                        (s\<lparr>balance := bal\<rparr>)) = js ''Invalid amount'')))
   \<and> \<not> begins_with_number (js ''abc'')
   \<and> (isNaN (parseFloat (amount s)) \<longleftrightarrow> \<not> begins_with_number (amount s))"
proof (intro conjI impI allI)
  fix amt bal
  assume "PublicKey_new env (trim (recipient s)) = Inl e"
  then show "validateTransfer env (s\<lparr>amount := amt, balance := bal\<rparr>) = Inl e"
    by (simp add: validateTransfer_bad_recipient)
next
  fix bal
  assume h: "PublicKey_new env (trim (recipient s)) = Inr rk
        \<and> (\<not> begins_with_number (amount s) \<or> js_le (parseFloat (amount s)) (Finite 0))"
  then have bad: "isNaN (parseFloat (amount s)) \<or> js_le (parseFloat (amount s)) (Finite 0)"
    using parseFloat_NaN_iff by auto
  show v: "validateTransfer env (s\<lparr>balance := bal\<rparr>) = Inl (Error (js ''Invalid amount''))"
    using h bad validateTransfer_invalid_amount [of env "s\<lparr>balance := bal\<rparr>" rk] by simp
  {
    assume c: "smartWalletPubkey wd = Some k \<and> isConnected wd \<and> wallet wd = Some wi"
    show "txError (run (fst (handleSendTransaction_direct env wd (s\<lparr>balance := bal\<rparr>)))
                        (s\<lparr>balance := bal\<rparr>)) = js ''Invalid amount''"
      using c handle_direct_rejected [of wd k wi env "s\<lparr>balance := bal\<rparr>", OF _ _ _ v]
      by (simp add: errorMessage_direct_invalid_amount)
  }
  {
    assume c: "publicKey ws = Some k \<and> connected ws"
    show "txError (run (fst (handleSendTransaction_standard env ws (s\<lparr>balance := bal\<rparr>)))
                        (s\<lparr>balance := bal\<rparr>)) = js ''Invalid amount''"
      using c handle_standard_rejected [of ws k env "s\<lparr>balance := bal\<rparr>", OF _ _ v]
      by (simp add: errorMessage_standard_invalid_amount)
  }
next
  show "\<not> begins_with_number (js ''abc'')"
    by (rule abc_is_no_number)
next
  show "isNaN (parseFloat (amount s)) \<longleftrightarrow> \<not> begins_with_number (amount s)"
    by (rule parseFloat_NaN_iff)
qed

theorem validation_order_witness:
  "PublicKey_new example_env (trim (recipient (example_state (js ''abc'')))) = Inr recipient_key
   \<and> amount (example_state (js ''abc'')) = js ''abc''
   \<and> validateTransfer example_env ((example_state (js ''abc''))\<lparr>balance := None\<rparr>)
       = Inl (Error (js ''Invalid amount''))
   \<and> validateTransfer example_env ((example_state (js ''abc''))\<lparr>balance := Some (Finite 0)\<rparr>)
       = Inl (Error (js ''Invalid amount''))
   \<and> txError (run (fst (handleSendTransaction_direct example_env example_wallet_direct
                          (example_state (js ''abc'')))) (example_state (js ''abc'')))
       = js ''Invalid amount''
   \<and> PublicKey_new example_env
         (trim (recipient ((example_state (js ''0.5''))\<lparr>recipient := js ''me''\<rparr>)))
       = Inl (Error (js ''Invalid public key input''))
   \<and> validateTransfer example_env ((example_state (js ''0.5''))\<lparr>recipient := js ''me''\<rparr>)
       = Inl (Error (js ''Invalid public key input''))"
proof -
  let ?s = "example_state (js ''abc'')"
  let ?t = "(example_state (js ''0.5''))\<lparr>recipient := js ''me''\<rparr>"
  have h1: "PublicKey_new example_env (trim (recipient ?s)) = Inr recipient_key"
    by (rule example_recipient_ok)
  have h2: "amount ?s = js ''abc''"
    by (simp add: example_state_def)
  have n: "\<not> begins_with_number (amount ?s)"
    by (simp only: h2 abc_is_no_number not_False_eq_True)
  have w: "smartWalletPubkey example_wallet_direct = Some owner_key
           \<and> isConnected example_wallet_direct
           \<and> wallet example_wallet_direct = Some \<lparr>smartWallet = owner_key\<rparr>"
    by (simp add: example_wallet_direct_def)
  have same: "?s\<lparr>balance := Some (Finite 1)\<rparr> = ?s"
    by (simp add: example_state_def)
  have tm: "trim (js ''me'') = js ''me''"
    by (simp add: trim_def isWhiteSpace_def js_def)
  have h3: "PublicKey_new example_env (trim (recipient ?t))
              = Inl (Error (js ''Invalid public key input''))"
    by (simp add: example_env_def tm example_bad_recipient)
  have same': "?t\<lparr>amount := js ''0.5'', balance := Some (Finite 1)\<rparr> = ?t"
    by (simp add: example_state_def)
  note thm1 = validation_order [of example_env ?s "Error (js ''x'')" recipient_key
      example_wallet_direct owner_key "\<lparr>smartWallet = owner_key\<rparr>" example_wallet_standard]
  note thm2 = validation_order [of example_env ?t "Error (js ''Invalid public key input'')"]
  from thm1 h1 n have all: "\<forall>bal. validateTransfer example_env (?s\<lparr>balance := bal\<rparr>)
          = Inl (Error (js ''Invalid amount''))
        \<and> (smartWalletPubkey example_wallet_direct = Some owner_key
            \<and> isConnected example_wallet_direct
            \<and> wallet example_wallet_direct = Some \<lparr>smartWallet = owner_key\<rparr> \<longrightarrow>
             txError (run (fst (handleSendTransaction_direct example_env example_wallet_direct
                (?s\<lparr>balance := bal\<rparr>))) (?s\<lparr>balance := bal\<rparr>)) = js ''Invalid amount'')"
    by blast
  from all have a1: "validateTransfer example_env (?s\<lparr>balance := None\<rparr>)
                       = Inl (Error (js ''Invalid amount''))"
    by blast
  from all have a2: "validateTransfer example_env (?s\<lparr>balance := Some (Finite 0)\<rparr>)
                       = Inl (Error (js ''Invalid amount''))"
    by blast
  from all w have "txError (run (fst (handleSendTransaction_direct example_env
                example_wallet_direct (?s\<lparr>balance := Some (Finite 1)\<rparr>)))
                (?s\<lparr>balance := Some (Finite 1)\<rparr>)) = js ''Invalid amount''"
    by blast
  then have a3: "txError (run (fst (handleSendTransaction_direct example_env
                   example_wallet_direct ?s)) ?s) = js ''Invalid amount''"
    by (simp only: same)
  from thm2 h3 have "validateTransfer example_env
                       (?t\<lparr>amount := js ''0.5'', balance := Some (Finite 1)\<rparr>)
       = Inl (Error (js ''Invalid public key input''))"
    by blast
  then have a4: "validateTransfer example_env ?t = Inl (Error (js ''Invalid public key input''))"
    by (simp only: same')
  from h1 h2 a1 a2 a3 h3 a4 show ?thesis by blast
qed

text \<open>
  The claim as the specification words it, every non-numeric amount rejected as an
  invalid amount, fails on \<^verbatim>\<open>0.5abc\<close>: the string is not a number, \<^verbatim>\<open>parseFloat\<close> reads the
  half at its start, the checks accept it against a balance of 1, and the transfer of
  half a SOL is submitted.
\<close>

theorem non_numeric_amount_counterexample:
  "\<not> numeric_string (js ''0.5abc'')
   \<and> validateTransfer example_env (example_state (js ''0.5abc''))
       = Inr (recipient_key, Finite (1 / 2))
   \<and> try_direct example_env example_wallet_direct (example_state (js ''0.5abc'')) =
       ([Call_SystemProgram_transfer (transfer_params owner_key recipient_key (Finite (1 / 2))),
         Console_log (js ''Attempting to sign transaction...''),
         Call_signAndSendTransaction
           (sign_payload (Instruction (transfer_params owner_key recipient_key (Finite (1 / 2))))),
         Console_log (js ''Transaction successful:''),
         SetTxHash (Some (js ''5x7y'')), SetRecipient [], SetAmount []]
        @ fst (refreshBalance example_env (Some owner_key)), Inr ())
   \<and> try_standard example_env example_wallet_standard (example_state (js ''0.5abc'')) =
       ([Call_SystemProgram_transfer (transfer_params owner_key recipient_key (Finite (1 / 2))),
         Console_log (js ''Attempting to send transaction...''),
         Call_sendTransaction
           (Transaction [Instruction (transfer_params owner_key recipient_key (Finite (1 / 2)))]),
         Console_log (js ''Transaction successful:''),
         SetTxHash (Some (js ''5x7y'')), SetRecipient [], SetAmount []]
        @ fst (refreshBalance example_env (Some owner_key)), Inr ())"
proof -
  have v: "validateTransfer example_env (example_state (js ''0.5abc''))
             = Inr (recipient_key, Finite (1 / 2))"
    by (rule validate_example [OF _ parseFloat_0_5abc]) (simp_all add: example_env_fields)
  have d: "try_direct example_env example_wallet_direct (example_state (js ''0.5abc'')) =
       ([Call_SystemProgram_transfer (transfer_params owner_key recipient_key (Finite (1 / 2))),
         Console_log (js ''Attempting to sign transaction...''),
         Call_signAndSendTransaction
           (sign_payload (Instruction (transfer_params owner_key recipient_key (Finite (1 / 2))))),
         Console_log (js ''Transaction successful:''),
         SetTxHash (Some (js ''5x7y'')), SetRecipient [], SetAmount []]
        @ fst (refreshBalance example_env (Some owner_key)), Inr ())"
    by (rule try_direct_succeeded [OF example_wallets(1-3) v]) (simp_all add: example_env_fields)
  have t: "try_standard example_env example_wallet_standard (example_state (js ''0.5abc'')) =
       ([Call_SystemProgram_transfer (transfer_params owner_key recipient_key (Finite (1 / 2))),
         Console_log (js ''Attempting to send transaction...''),
         Call_sendTransaction
           (Transaction [Instruction (transfer_params owner_key recipient_key (Finite (1 / 2)))]),
         Console_log (js ''Transaction successful:''),
         SetTxHash (Some (js ''5x7y'')), SetRecipient [], SetAmount []]
        @ fst (refreshBalance example_env (Some owner_key)), Inr ())"
    by (rule try_standard_succeeded [OF example_wallets(4-5) v]) (simp_all add: example_env_fields)
  from not_numeric_0_5abc v d t show ?thesis by blast
qed

text \<open>
  C10. When the \<^verbatim>\<open>try\<close> block throws (a failed check or a provider error), the handler
  leaves \<^verbatim>\<open>recipient\<close> and \<^verbatim>\<open>amount\<close> as they were, in both variants. They are emptied
  when the \<^verbatim>\<open>try\<close> block returns (a successful submission) and by the \<^verbatim>\<open>Cancel\<close> button;
  the \<^verbatim>\<open>Close\<close> button of the success panel does not touch them.
\<close>

theorem failed_attempt_keeps_form:
  "(snd (try_direct env wd s) = Inl err \<longrightarrow>
      recipient (run (fst (handleSendTransaction_direct env wd s)) s) = recipient s
      \<and> amount (run (fst (handleSendTransaction_direct env wd s)) s) = amount s)
   \<and> (snd (try_standard env ws s) = Inl err \<longrightarrow>
      recipient (run (fst (handleSendTransaction_standard env ws s)) s) = recipient s
      \<and> amount (run (fst (handleSendTransaction_standard env ws s)) s) = amount s)
   \<and> (snd (try_direct env wd s) = Inr () \<longrightarrow>
      recipient (run (fst (handleSendTransaction_direct env wd s)) s) = []
      \<and> amount (run (fst (handleSendTransaction_direct env wd s)) s) = [])
   \<and> (snd (try_standard env ws s) = Inr () \<longrightarrow>
      recipient (run (fst (handleSendTransaction_standard env ws s)) s) = []
      \<and> amount (run (fst (handleSendTransaction_standard env ws s)) s) = [])
   \<and> recipient (run cancel_clicked s) = [] \<and> amount (run cancel_clicked s) = []
   \<and> recipient (run close_clicked s) = recipient s
   \<and> amount (run close_clicked s) = amount s"
proof (intro conjI impI)
  assume "snd (try_direct env wd s) = Inl err"
  from handle_direct_failed [OF this]
  show "recipient (run (fst (handleSendTransaction_direct env wd s)) s) = recipient s"
    and "amount (run (fst (handleSendTransaction_direct env wd s)) s) = amount s"
    by simp_all
next
  assume "snd (try_standard env ws s) = Inl err"
  from handle_standard_failed [OF this]
  show "recipient (run (fst (handleSendTransaction_standard env ws s)) s) = recipient s"
    and "amount (run (fst (handleSendTransaction_standard env ws s)) s) = amount s"
    by simp_all
next
  assume "snd (try_direct env wd s) = Inr ()"
  from handle_direct_cleared [OF this]
  show "recipient (run (fst (handleSendTransaction_direct env wd s)) s) = []"
    and "amount (run (fst (handleSendTransaction_direct env wd s)) s) = []"
    by simp_all
next
  assume "snd (try_standard env ws s) = Inr ()"
  from handle_standard_cleared [OF this]
  show "recipient (run (fst (handleSendTransaction_standard env ws s)) s) = []"
    and "amount (run (fst (handleSendTransaction_standard env ws s)) s) = []"
    by simp_all
next
  show "recipient (run cancel_clicked s) = []" and "amount (run cancel_clicked s) = []"
    by (simp_all add: cancel_clicked_def)
next
  show "recipient (run close_clicked s) = recipient s"
    and "amount (run close_clicked s) = amount s"
    by (simp_all add: close_clicked_def)
qed

theorem failed_attempt_keeps_form_witness:
  "snd (try_direct (rejecting_env (Error (js ''User rejected the request''))) example_wallet_direct
         (example_state (js ''0.5''))) = Inl (Error (js ''User rejected the request''))
   \<and> snd (try_standard (rejecting_env (Error (js ''User rejected the request'')))
         example_wallet_standard (example_state (js ''0.5'')))
       = Inl (Error (js ''User rejected the request''))
   \<and> recipient (run (fst (handleSendTransaction_direct
         (rejecting_env (Error (js ''User rejected the request''))) example_wallet_direct
         (example_state (js ''0.5'')))) (example_state (js ''0.5'')))
       = (js '' GsbwXfJraMomNxBcjYLcG3mxkBUiyWXAB32fGbSMQRdW '')
   \<and> amount (run (fst (handleSendTransaction_direct
         (rejecting_env (Error (js ''User rejected the request''))) example_wallet_direct
         (example_state (js ''0.5'')))) (example_state (js ''0.5''))) = (js ''0.5'')
   \<and> recipient (run (fst (handleSendTransaction_standard
         (rejecting_env (Error (js ''User rejected the request''))) example_wallet_standard
         (example_state (js ''0.5'')))) (example_state (js ''0.5'')))
       = (js '' GsbwXfJraMomNxBcjYLcG3mxkBUiyWXAB32fGbSMQRdW '')
   \<and> amount (run (fst (handleSendTransaction_standard
         (rejecting_env (Error (js ''User rejected the request''))) example_wallet_standard
         (example_state (js ''0.5'')))) (example_state (js ''0.5''))) = (js ''0.5'')"
  using failed_attempt_keeps_form
          [of "rejecting_env (Error (js ''User rejected the request''))" example_wallet_direct
              "example_state (js ''0.5'')" "Error (js ''User rejected the request'')"
              example_wallet_standard]
  by (simp add: try_direct_rejecting_example try_standard_rejecting_example)
     (simp add: example_state_def)


section \<open>The outcome of a submission\<close>

lemma handle_direct_never_both:
  "txHash (run (fst (handleSendTransaction_direct env w s)) s) = None
   \<or> txError (run (fst (handleSendTransaction_direct env w s)) s) = []"
proof (cases "snd (try_direct env w s)")
  case (Inl err)
  from handle_direct_failed [OF this] show ?thesis by simp
next
  case (Inr u)
  from handle_direct_cleared [OF this] show ?thesis by simp
qed

lemma handle_standard_never_both:
  "txHash (run (fst (handleSendTransaction_standard env w s)) s) = None
   \<or> txError (run (fst (handleSendTransaction_standard env w s)) s) = []"
proof (cases "snd (try_standard env w s)")
  case (Inl err)
  from handle_standard_failed [OF this] show ?thesis by simp
next
  case (Inr u)
  from handle_standard_cleared [OF this] show ?thesis by simp
qed

lemma errorMessage_empty:
  "errorMessage_direct env b (Error []) = []" "errorMessage_standard env b (Error []) = []"
  by (simp_all add: errorMessage_direct_def errorMessage_standard_def js_def)

text \<open>
  C7. The handlers never let an error escape and never leave both outcome fields set
  (\<open>handle_direct_returns\<close>, \<open>handle_direct_never_both\<close> and their wallet-standard
  twins). But a failure can leave both empty: the fallback \<^verbatim>\<open>Transaction failed\<close> is
  replaced by \<^verbatim>\<open>err.message\<close> for every \<^verbatim>\<open>Error\<close>, also one whose message is the empty
  string. Whenever the \<^verbatim>\<open>try\<close> block throws such an error, the handler ends
  with \<^verbatim>\<open>txHash\<close> \<^verbatim>\<open>null\<close> and \<^verbatim>\<open>txError\<close> empty, in both variants.
\<close>

theorem empty_error_message_leaves_no_outcome:
  "(snd (try_direct env wd s) = Inl (Error []) \<longrightarrow>
      txHash (run (fst (handleSendTransaction_direct env wd s)) s) = None
      \<and> txError (run (fst (handleSendTransaction_direct env wd s)) s) = [])
   \<and> (snd (try_standard env ws s) = Inl (Error []) \<longrightarrow>
      txHash (run (fst (handleSendTransaction_standard env ws s)) s) = None
      \<and> txError (run (fst (handleSendTransaction_standard env ws s)) s) = [])"
proof (intro conjI impI)
  assume "snd (try_direct env wd s) = Inl (Error [])"
  from handle_direct_failed [OF this]
  show "txHash (run (fst (handleSendTransaction_direct env wd s)) s) = None"
    and "txError (run (fst (handleSendTransaction_direct env wd s)) s) = []"
    by (simp_all add: errorMessage_empty)
next
  assume "snd (try_standard env ws s) = Inl (Error [])"
  from handle_standard_failed [OF this]
  show "txHash (run (fst (handleSendTransaction_standard env ws s)) s) = None"
    and "txError (run (fst (handleSendTransaction_standard env ws s)) s) = []"
    by (simp_all add: errorMessage_empty)
qed

text \<open>
  The provider of the example rejecting with an \<^verbatim>\<open>Error\<close> that has no message: the
  request passes the checks, the provider is called, and both fields end up empty.
\<close>

theorem empty_error_message_leaves_no_outcome_witness:
  "snd (try_direct (rejecting_env (Error [])) example_wallet_direct (example_state (js ''0.5'')))
     = Inl (Error [])
   \<and> txHash (run (fst (handleSendTransaction_direct (rejecting_env (Error []))
         example_wallet_direct (example_state (js ''0.5'')))) (example_state (js ''0.5''))) = None
   \<and> txError (run (fst (handleSendTransaction_direct (rejecting_env (Error []))
         example_wallet_direct (example_state (js ''0.5'')))) (example_state (js ''0.5''))) = []
   \<and> snd (try_standard (rejecting_env (Error [])) example_wallet_standard (example_state (js ''0.5'')))
     = Inl (Error [])
   \<and> txHash (run (fst (handleSendTransaction_standard (rejecting_env (Error []))
         example_wallet_standard (example_state (js ''0.5'')))) (example_state (js ''0.5''))) = None
   \<and> txError (run (fst (handleSendTransaction_standard (rejecting_env (Error []))
         example_wallet_standard (example_state (js ''0.5'')))) (example_state (js ''0.5''))) = []"
proof -
  have d: "snd (try_direct (rejecting_env (Error [])) example_wallet_direct
                  (example_state (js ''0.5''))) = Inl (Error [])"
    by (simp add: try_direct_rejecting_example)
  have t: "snd (try_standard (rejecting_env (Error [])) example_wallet_standard
                  (example_state (js ''0.5''))) = Inl (Error [])"
    by (simp add: try_standard_rejecting_example)
  from empty_error_message_leaves_no_outcome
         [of "rejecting_env (Error [])" example_wallet_direct "example_state (js ''0.5'')"
             example_wallet_standard] d t
  show ?thesis by blast
qed


section \<open>The order of recording and refreshing\<close>

lemma refreshBalance_example:
  "fst (refreshBalance example_env (Some k)) = [Call_getBalance k, SetBalance (Finite (1 / 2))]"
  by (simp add: refreshBalance_def example_env_fields LAMPORTS_PER_SOL_def binary64_eval)

lemma handle_direct_example:
  "fst (handleSendTransaction_direct example_env example_wallet_direct (example_state (js ''0.5''))) =
     [PreventDefault, SetTxError [], SetTxHash None, SetSending True,
      Call_SystemProgram_transfer (transfer_params owner_key recipient_key (Finite (1 / 2))),
      Console_log (js ''Attempting to sign transaction...''),
      Call_signAndSendTransaction
        (sign_payload (Instruction (transfer_params owner_key recipient_key (Finite (1 / 2))))),
      Console_log (js ''Transaction successful:''),
      SetTxHash (Some (js ''5x7y'')), SetRecipient [], SetAmount [],
      Call_getBalance owner_key, SetBalance (Finite (1 / 2)), SetSending False]"
proof -
  have v: "validateTransfer example_env (example_state (js ''0.5''))
             = Inr (recipient_key, Finite (1 / 2))"
    by (simp add: validate_example_half example_env_fields)
  show ?thesis
    by (simp add: handle_direct_succeeded [OF example_wallets(1-3) v example_env_fields(2)
          example_env_fields(3)] refreshBalance_example)
qed

lemma handle_standard_example:
  "fst (handleSendTransaction_standard example_env example_wallet_standard
          (example_state (js ''0.5''))) =
     [PreventDefault, SetTxError [], SetTxHash None, SetSending True,
      Call_SystemProgram_transfer (transfer_params owner_key recipient_key (Finite (1 / 2))),
      Console_log (js ''Attempting to send transaction...''),
      Call_sendTransaction
        (Transaction [Instruction (transfer_params owner_key recipient_key (Finite (1 / 2)))]),
      Console_log (js ''Transaction successful:''),
      SetTxHash (Some (js ''5x7y'')), SetRecipient [], SetAmount [],
      Call_getBalance owner_key, SetBalance (Finite (1 / 2)), SetSending False]"
proof -
  have v: "validateTransfer example_env (example_state (js ''0.5''))
             = Inr (recipient_key, Finite (1 / 2))"
    by (simp add: validate_example_half example_env_fields)
  show ?thesis
    by (simp add: handle_standard_succeeded [OF example_wallets(4-5) v example_env_fields(2)
          example_env_fields(4)] refreshBalance_example)
qed

text \<open>
  C3, as the code has it. On a successful submission the handler records the
  transaction identifier and empties the form first, and only then starts the balance
  refresh; \<^verbatim>\<open>sending\<close> is reset after the refresh. So when the refresh is started the
  success state is already recorded and the stored balance is still the old one. Both
  variants do the same.
\<close>

theorem success_recorded_before_refresh:
  assumes direct: "smartWalletPubkey wd = Some k" "isConnected wd" "wallet wd = Some wi"
      and standard: "publicKey ws = Some k" "connected ws"
      and valid: "validateTransfer env s = Inr (rk, a)"
      and built: "SystemProgram_transfer env (transfer_params k rk a) = Inr i"
      and signed: "signAndSendTransaction env (sign_payload i) = Inr signature"
      and sent: "sendTransaction env (Transaction [i]) = Inr signature"
  shows "fst (handleSendTransaction_direct env wd s) =
           [PreventDefault, SetTxError [], SetTxHash None, SetSending True,
            Call_SystemProgram_transfer (transfer_params k rk a),
            Console_log (js ''Attempting to sign transaction...''),
            Call_signAndSendTransaction (sign_payload i),
            Console_log (js ''Transaction successful:''),
            SetTxHash (Some signature), SetRecipient [], SetAmount []]
           @ fst (refreshBalance env (Some k)) @ [SetSending False]
         \<and> fst (handleSendTransaction_standard env ws s) =
           [PreventDefault, SetTxError [], SetTxHash None, SetSending True,
            Call_SystemProgram_transfer (transfer_params k rk a),
            Console_log (js ''Attempting to send transaction...''),
            Call_sendTransaction (Transaction [i]),
            Console_log (js ''Transaction successful:''),
            SetTxHash (Some signature), SetRecipient [], SetAmount []]
           @ fst (refreshBalance env (Some k)) @ [SetSending False]
         \<and> hd (fst (refreshBalance env (Some k))) = Call_getBalance k
         \<and> txHash (run (take 11 (fst (handleSendTransaction_direct env wd s))) s) = Some signature
         \<and> balance (run (take 11 (fst (handleSendTransaction_direct env wd s))) s) = balance s
         \<and> txHash (run (take 11 (fst (handleSendTransaction_standard env ws s))) s)
             = Some signature
         \<and> balance (run (take 11 (fst (handleSendTransaction_standard env ws s))) s) = balance s"
proof -
  note d = handle_direct_succeeded [OF direct valid built signed]
  note t = handle_standard_succeeded [OF standard valid built sent]
  have h: "hd (fst (refreshBalance env (Some k))) = Call_getBalance k"
    by (simp add: refreshBalance_def split: sum.split)
  show ?thesis
    by (simp add: d t h)
qed

theorem success_recorded_before_refresh_witness:
  "validateTransfer example_env (example_state (js ''0.5'')) = Inr (recipient_key, Finite (1 / 2))
   \<and> txHash (run (take 11 (fst (handleSendTransaction_direct example_env example_wallet_direct
         (example_state (js ''0.5''))))) (example_state (js ''0.5''))) = Some (js ''5x7y'')
   \<and> balance (run (take 11 (fst (handleSendTransaction_direct example_env example_wallet_direct
         (example_state (js ''0.5''))))) (example_state (js ''0.5''))) = Some (Finite 1)
   \<and> txHash (run (take 11 (fst (handleSendTransaction_standard example_env
         example_wallet_standard (example_state (js ''0.5''))))) (example_state (js ''0.5'')))
       = Some (js ''5x7y'')"
proof -
  have v: "validateTransfer example_env (example_state (js ''0.5''))
             = Inr (recipient_key, Finite (1 / 2))"
    by (simp add: validate_example_half example_env_fields)
  have b: "balance (example_state (js ''0.5'')) = Some (Finite 1)"
    by (simp add: example_state_def)
  from success_recorded_before_refresh [OF example_wallets v example_env_fields(2)
         example_env_fields(3) example_env_fields(4)] v b
  show ?thesis by simp
qed

text \<open>
  The claim as the specification words it, the balance refreshed before the success
  state is recorded, fails on the example: after the first nine steps of the direct
  handler the identifier is recorded and the balance is still 1; the refreshed balance,
  0.5, is stored four steps later.
\<close>

theorem refresh_before_success_counterexample:
  "fst (handleSendTransaction_direct example_env example_wallet_direct (example_state (js ''0.5''))) =
     [PreventDefault, SetTxError [], SetTxHash None, SetSending True,
      Call_SystemProgram_transfer (transfer_params owner_key recipient_key (Finite (1 / 2))),
      Console_log (js ''Attempting to sign transaction...''),
      Call_signAndSendTransaction
        (sign_payload (Instruction (transfer_params owner_key recipient_key (Finite (1 / 2))))),
      Console_log (js ''Transaction successful:''),
      SetTxHash (Some (js ''5x7y'')), SetRecipient [], SetAmount [],
      Call_getBalance owner_key, SetBalance (Finite (1 / 2)), SetSending False]
   \<and> txHash (run (take 9 (fst (handleSendTransaction_direct example_env example_wallet_direct
         (example_state (js ''0.5''))))) (example_state (js ''0.5''))) = Some (js ''5x7y'')
   \<and> balance (run (take 9 (fst (handleSendTransaction_direct example_env example_wallet_direct
         (example_state (js ''0.5''))))) (example_state (js ''0.5''))) = Some (Finite 1)
   \<and> balance (run (take 13 (fst (handleSendTransaction_direct example_env example_wallet_direct
         (example_state (js ''0.5''))))) (example_state (js ''0.5''))) = Some (Finite (1 / 2))
   \<and> txHash (run (take 9 (fst (handleSendTransaction_standard example_env
         example_wallet_standard (example_state (js ''0.5''))))) (example_state (js ''0.5'')))
       = Some (js ''5x7y'')
   \<and> balance (run (take 9 (fst (handleSendTransaction_standard example_env
         example_wallet_standard (example_state (js ''0.5''))))) (example_state (js ''0.5'')))
       = Some (Finite 1)"
  by (simp add: handle_direct_example handle_standard_example) (simp add: example_state_def)


section \<open>The amount handed on\<close>

lemma lamports_of_0_0041:
  "transfer_params k rk (Finite (4726978168888073 / 1152921504606846976))
     = \<lparr>fromPubkey = k, toPubkey = rk, lamports = Finite (8804682956800001 / 2147483648)\<rparr>"
  by (simp add: transfer_params_def lamports_0_0041)

lemma not_integer_0_0041: "\<not> isInteger (Finite (8804682956800001 / 2147483648))"
  by (simp add: floor_numeral_div)

lemma example_builder_0_0041:
  "SystemProgram_transfer example_env
     (transfer_params k rk (Finite (4726978168888073 / 1152921504606846976)))
   = Inl (Error (js ''The number 4100000.0000000005 cannot be converted to a BigInt because it is not an integer''))"
  by (simp add: example_env_def example_SystemProgram_transfer_def lamports_of_0_0041
        floor_numeral_div example_Number_toString_def js_def)

lemma errorMessage_BigInt:
  "errorMessage_direct env b
     (Error (js ''The number 4100000.0000000005 cannot be converted to a BigInt because it is not an integer''))
     = js ''The number 4100000.0000000005 cannot be converted to a BigInt because it is not an integer''"
  "errorMessage_standard env b
     (Error (js ''The number 4100000.0000000005 cannot be converted to a BigInt because it is not an integer''))
     = js ''The number 4100000.0000000005 cannot be converted to a BigInt because it is not an integer''"
  by (simp_all add: errorMessage_direct_def errorMessage_standard_def js_def)

lemma handle_direct_builder_throws:
  assumes "smartWalletPubkey w = Some k" "isConnected w" "wallet w = Some wi"
      and "validateTransfer env s = Inr (rk, a)"
      and "SystemProgram_transfer env (transfer_params k rk a) = Inl err"
  shows "fst (handleSendTransaction_direct env w s) =
           [PreventDefault, SetTxError [], SetTxHash None, SetSending True,
            Call_SystemProgram_transfer (transfer_params k rk a),
            Console_error (js ''Transaction failed:''),
            SetTxError (errorMessage_direct env (balance s) err), SetSending False]"
  by (simp add: handleSendTransaction_direct_def Let_def try_direct_builder_throws [OF assms])

lemma handle_standard_builder_throws:
  assumes "publicKey w = Some k" "connected w"
      and "validateTransfer env s = Inr (rk, a)"
      and "SystemProgram_transfer env (transfer_params k rk a) = Inl err"
  shows "fst (handleSendTransaction_standard env w s) =
           [PreventDefault, SetTxError [], SetTxHash None, SetSending True,
            Call_SystemProgram_transfer (transfer_params k rk a),
            Console_error (js ''Transaction failed:''),
            SetTxError (errorMessage_standard env (balance s) err), SetSending False]"
  by (simp add: handleSendTransaction_standard_def Let_def
        try_standard_builder_throws [OF assms])

lemma handle_direct_provider_called:
  assumes "smartWalletPubkey w = Some k" "isConnected w" "wallet w = Some wi"
      and "validateTransfer env s = Inr (rk, a)"
      and "SystemProgram_transfer env (transfer_params k rk a) = Inr i"
  shows "take 7 (fst (handleSendTransaction_direct env w s)) =
           [PreventDefault, SetTxError [], SetTxHash None, SetSending True,
            Call_SystemProgram_transfer (transfer_params k rk a),
            Console_log (js ''Attempting to sign transaction...''),
            Call_signAndSendTransaction (sign_payload i)]"
proof (cases "signAndSendTransaction env (sign_payload i)")
  case (Inl err)
  show ?thesis
    by (simp add: handleSendTransaction_direct_def Let_def
          try_direct_provider_rejects [OF assms Inl])
next
  case (Inr signature)
  show ?thesis
    by (simp add: handle_direct_succeeded [OF assms Inr])
qed

lemma handle_standard_provider_called:
  assumes "publicKey w = Some k" "connected w"
      and "validateTransfer env s = Inr (rk, a)"
      and "SystemProgram_transfer env (transfer_params k rk a) = Inr i"
  shows "take 7 (fst (handleSendTransaction_standard env w s)) =
           [PreventDefault, SetTxError [], SetTxHash None, SetSending True,
            Call_SystemProgram_transfer (transfer_params k rk a),
            Console_log (js ''Attempting to send transaction...''),
            Call_sendTransaction (Transaction [i])]"
proof (cases "sendTransaction env (Transaction [i])")
  case (Inl err)
  show ?thesis
    by (simp add: handleSendTransaction_standard_def Let_def
          try_standard_provider_rejects [OF assms Inl])
next
  case (Inr signature)
  show ?thesis
    by (simp add: handle_standard_succeeded [OF assms Inr])
qed

text \<open>
  C4. What the handlers do with an accepted amount: the lamports passed to
  \<^verbatim>\<open>SystemProgram.transfer\<close> are the binary64 product of the parsed amount and
  \<^verbatim>\<open>LAMPORTS_PER_SOL\<close>, with no step that makes them an integer. If the builder returns an
  instruction, that instruction alone is what the provider is called with; if the
  builder throws, the provider is not called and the builder's error is shown. So the
  amount handed on is an exact integer only when the rounded product happens to be one,
  and for the amount \<^verbatim>\<open>0.0041\<close> it is not (see the witness): the claim fails there.
\<close>

theorem lamports_is_rounded_product:
  assumes direct: "smartWalletPubkey wd = Some k" "isConnected wd" "wallet wd = Some wi"
      and standard: "publicKey ws = Some k" "connected ws"
      and valid: "validateTransfer env s = Inr (rk, a)"
  shows "a = parseFloat (amount s)
         \<and> lamports (transfer_params k rk a) = js_times (parseFloat (amount s)) LAMPORTS_PER_SOL
         \<and> (\<forall>err. SystemProgram_transfer env (transfer_params k rk a) = Inl err \<longrightarrow>
               fst (handleSendTransaction_direct env wd s) =
                 [PreventDefault, SetTxError [], SetTxHash None, SetSending True,
                  Call_SystemProgram_transfer (transfer_params k rk a),
                  Console_error (js ''Transaction failed:''),
                  SetTxError (errorMessage_direct env (balance s) err), SetSending False]
               \<and> fst (handleSendTransaction_standard env ws s) =
                 [PreventDefault, SetTxError [], SetTxHash None, SetSending True,
                  Call_SystemProgram_transfer (transfer_params k rk a),
                  Console_error (js ''Transaction failed:''),
                  SetTxError (errorMessage_standard env (balance s) err), SetSending False])
         \<and> (\<forall>i. SystemProgram_transfer env (transfer_params k rk a) = Inr i \<longrightarrow>
               take 7 (fst (handleSendTransaction_direct env wd s)) =
                 [PreventDefault, SetTxError [], SetTxHash None, SetSending True,
                  Call_SystemProgram_transfer (transfer_params k rk a),
                  Console_log (js ''Attempting to sign transaction...''),
                  Call_signAndSendTransaction (sign_payload i)]
               \<and> instructions (sign_payload i) = [i]
               \<and> take 7 (fst (handleSendTransaction_standard env ws s)) =
                 [PreventDefault, SetTxError [], SetTxHash None, SetSending True,
                  Call_SystemProgram_transfer (transfer_params k rk a),
                  Console_log (js ''Attempting to send transaction...''),
                  Call_sendTransaction (Transaction [i])])"
proof -
  have a: "a = parseFloat (amount s)"
    using validateTransfer_accepted [OF valid] by simp
  have l: "lamports (transfer_params k rk a) = js_times (parseFloat (amount s)) LAMPORTS_PER_SOL"
    by (simp add: transfer_params_def a)
  have p: "\<And>i. instructions (sign_payload i) = [i]"
    by (simp add: sign_payload_def)
  from a l p
    handle_direct_builder_throws [OF direct valid]
    handle_standard_builder_throws [OF standard valid]
    handle_direct_provider_called [OF direct valid]
    handle_standard_provider_called [OF standard valid]
  show ?thesis by blast
qed

text \<open>
  The amount \<^verbatim>\<open>0.0041\<close>, a multiple of the step of the amount field, against a balance of
  1. The checks accept it. The exact product with \<open>10^9\<close> is 4100000, the handlers
  compute 4100000.0000000005, and that is what the builder is given. The builder of
  the example, as the one of the library, throws on it: the provider is never called
  and the form shows the builder's error.
\<close>

theorem lamports_is_rounded_product_witness:
  "validateTransfer example_env (example_state (js ''0.0041''))
     = Inr (recipient_key, Finite (4726978168888073 / 1152921504606846976))
   \<and> (41 / 10000 :: rat) * 1000000000 = 4100000
   \<and> lamports (transfer_params owner_key recipient_key
                 (Finite (4726978168888073 / 1152921504606846976)))
       = Finite (8804682956800001 / 2147483648)
   \<and> \<not> isInteger (Finite (8804682956800001 / 2147483648))
   \<and> fst (handleSendTransaction_direct example_env example_wallet_direct
            (example_state (js ''0.0041''))) =
       [PreventDefault, SetTxError [], SetTxHash None, SetSending True,
        Call_SystemProgram_transfer
          \<lparr>fromPubkey = owner_key, toPubkey = recipient_key,
           lamports = Finite (8804682956800001 / 2147483648)\<rparr>,
        Console_error (js ''Transaction failed:''),
        SetTxError (js ''The number 4100000.0000000005 cannot be converted to a BigInt because it is not an integer''),
        SetSending False]
   \<and> fst (handleSendTransaction_standard example_env example_wallet_standard
            (example_state (js ''0.0041''))) =
       [PreventDefault, SetTxError [], SetTxHash None, SetSending True,
        Call_SystemProgram_transfer
          \<lparr>fromPubkey = owner_key, toPubkey = recipient_key,
           lamports = Finite (8804682956800001 / 2147483648)\<rparr>,
        Console_error (js ''Transaction failed:''),
        SetTxError (js ''The number 4100000.0000000005 cannot be converted to a BigInt because it is not an integer''),
        SetSending False]"
proof -
  let ?a = "Finite (4726978168888073 / 1152921504606846976)"
  have v: "validateTransfer example_env (example_state (js ''0.0041''))
             = Inr (recipient_key, ?a)"
    by (rule validate_example [OF _ parseFloat_0_0041]) (simp_all add: example_env_fields)
  have e: "(41 / 10000 :: rat) * 1000000000 = 4100000"
    by simp
  have l: "lamports (transfer_params owner_key recipient_key ?a)
             = Finite (8804682956800001 / 2147483648)"
    by (simp add: lamports_of_0_0041)
  note t = example_builder_0_0041 [of owner_key recipient_key]
  note p = lamports_is_rounded_product [OF example_wallets v]
  from p t have d: "fst (handleSendTransaction_direct example_env example_wallet_direct
            (example_state (js ''0.0041''))) =
       [PreventDefault, SetTxError [], SetTxHash None, SetSending True,
        Call_SystemProgram_transfer (transfer_params owner_key recipient_key ?a),
        Console_error (js ''Transaction failed:''),
        SetTxError (errorMessage_direct example_env (balance (example_state (js ''0.0041'')))
          (Error (js ''The number 4100000.0000000005 cannot be converted to a BigInt because it is not an integer''))),
        SetSending False]"
    by blast
  from p t have w: "fst (handleSendTransaction_standard example_env example_wallet_standard
            (example_state (js ''0.0041''))) =
       [PreventDefault, SetTxError [], SetTxHash None, SetSending True,
        Call_SystemProgram_transfer (transfer_params owner_key recipient_key ?a),
        Console_error (js ''Transaction failed:''),
        SetTxError (errorMessage_standard example_env (balance (example_state (js ''0.0041'')))
          (Error (js ''The number 4100000.0000000005 cannot be converted to a BigInt because it is not an integer''))),
        SetSending False]"
    by blast
  show ?thesis
    using v e l not_integer_0_0041
    by (simp only: d w errorMessage_BigInt lamports_of_0_0041) simp
qed

section \<open>The two error classifications\<close>

text \<open>
  C5, as the code has it. The two \<^verbatim>\<open>catch\<close> blocks differ in two places: the direct
  variant tests \<^verbatim>\<open>Signing failed\<close> before \<^verbatim>\<open>User rejected\<close> and the wallet-standard
  variant the other way round, and their messages for \<^verbatim>\<open>too large\<close> are different
  texts. So they show the same message for the raw message \<open>m\<close> exactly when \<open>m\<close> does
  not contain both \<^verbatim>\<open>Signing failed\<close> and \<^verbatim>\<open>User rejected\<close>, and contains \<^verbatim>\<open>too large\<close>
  only together with one of these two. A thrown value that is not an \<^verbatim>\<open>Error\<close> gets
  \<^verbatim>\<open>Transaction failed\<close> from both.
\<close>

theorem classifications_agree_iff:
  "(errorMessage_direct env b (Error m) = errorMessage_standard env b (Error m) \<longleftrightarrow>
      \<not> (str_includes m (js ''Signing failed'') \<and> str_includes m (js ''User rejected''))
      \<and> (str_includes m (js ''too large'') \<or> str_includes m (js ''Transaction too large'') \<longrightarrow>
           str_includes m (js ''Signing failed'') \<or> str_includes m (js ''User rejected'')))
   \<and> errorMessage_direct env b NonError = errorMessage_standard env b NonError"
  by (simp add: errorMessage_direct_def errorMessage_standard_def js_def)

theorem classifications_agree_iff_witness:
  "\<not> (str_includes (js ''User rejected the request'') (js ''Signing failed'')
       \<and> str_includes (js ''User rejected the request'') (js ''User rejected''))
   \<and> \<not> str_includes (js ''User rejected the request'') (js ''too large'')
   \<and> errorMessage_direct example_env (Some (Finite 1)) (Error (js ''User rejected the request''))
       = (js ''Transaction was cancelled.'')
   \<and> errorMessage_standard example_env (Some (Finite 1)) (Error (js ''User rejected the request''))
       = (js ''Transaction was cancelled.'')"
proof -
  have a: "\<not> str_includes (js ''User rejected the request'') (js ''Signing failed'')"
    and c: "\<not> str_includes (js ''User rejected the request'') (js ''too large'')"
    and e: "\<not> str_includes (js ''User rejected the request'') (js ''Transaction too large'')"
    by (simp_all add: js_def)
  have d: "errorMessage_direct example_env (Some (Finite 1)) (Error (js ''User rejected the request''))
       = (js ''Transaction was cancelled.'')"
    by (simp add: errorMessage_direct_def js_def)
  from classifications_agree_iff
         [of example_env "Some (Finite 1)" "(js ''User rejected the request'')"] a c e
  have eq: "errorMessage_direct example_env (Some (Finite 1))
              (Error (js ''User rejected the request''))
            = errorMessage_standard example_env (Some (Finite 1))
                (Error (js ''User rejected the request''))"
    by blast
  have d2: "errorMessage_standard example_env (Some (Finite 1))
              (Error (js ''User rejected the request'')) = (js ''Transaction was cancelled.'')"
    using d eq by simp
  from a c d d2 show ?thesis by blast
qed

text \<open>
  The claim as the specification words it, the same message for every raw message,
  fails on \<^verbatim>\<open>Transaction too large\<close>.
\<close>

theorem classifications_differ_counterexample:
  "errorMessage_direct example_env (Some (Finite 1)) (Error (js ''Transaction too large''))
     = (js ''Transaction too large. The transaction has been optimized with V0 format. If this persists, please try a smaller amount or contact support.'')
   \<and> errorMessage_standard example_env (Some (Finite 1)) (Error (js ''Transaction too large''))
     = (js ''Transaction too large. If this persists, please try a smaller amount or contact support.'')
   \<and> errorMessage_direct example_env (Some (Finite 1)) (Error (js ''Transaction too large''))
     \<noteq> errorMessage_standard example_env (Some (Finite 1)) (Error (js ''Transaction too large''))"
  by (simp add: errorMessage_direct_def errorMessage_standard_def js_def)


section \<open>Disconnecting\<close>





end
